theory Spec2Isabelle
  imports Complex_Main "HOL-Library.Product_Lexorder"
begin

section \<open>Stored state: the tables created by initDatabase\<close>

text \<open>
  Every table is the list of its rows in insertion order. Timestamps are milliseconds since
  the epoch (what \<open>Date.getTime\<close> returns, and what \<open>>=\<close> compares on two \<open>Date\<close>s).
  A nullable column is an \<open>option\<close>. The three \<open>SERIAL\<close> columns draw their ids from a
  sequence each; the record keeps the last value handed out. A column is present when the
  row interface of the source lists it or a statement of the source reads or writes it.
  Connection failures are not part of the model, the tables are taken to satisfy their
  foreign keys, and no text holds the character NUL. A value is checked against the type
  of its column where the batcher or the text handler writes a value that reaches the
  statement from outside with no bound on its size: the title of a draft, the two settings
  a user sends as text, the minutes of the window and the id of the post being edited. The
  ids the sinks return and the names Telegram sends are taken to fit their columns. A
  statement that fails leaves the tables and the sequences as they were.
\<close>

record UserRow =
  u_user_id :: int
  u_username :: "string option"
  u_is_authorized :: bool
  u_created_at :: int

record UserSettings =
  us_user_id :: int
  auto_publish :: bool
  combine_threshold_minutes :: int
  notion_database_id :: "string option"
  github_repo :: "string option"
  updated_at :: "int option"

record MonitoredSource =
  ms_id :: int
  ms_user_id :: int
  ms_chat_id :: int
  ms_chat_title :: "string option"
  ms_chat_type :: string
  ms_topic_id :: "int option"
  ms_is_active :: bool
  ms_created_at :: int

record PendingMessageRow =
  pm_id :: int
  pm_source_id :: int
  pm_message_id :: int
  pm_text :: "string option"
  pm_media_urls :: "string list option"
  pm_sender :: "string option"
  pm_timestamp :: int
  pm_is_processed :: bool

datatype post_status = Pending | Publishing | Published | Failed

record BlogPostRow =
  bp_id :: int
  bp_user_id :: int
  bp_title :: string
  bp_content :: string
  bp_media_urls :: "string list option"
  bp_source_messages :: "int list"
  bp_notion_page_id :: "string option"
  bp_github_commit_sha :: "string option"
  bp_status :: post_status
  bp_created_at :: int
  bp_published_at :: "int option"

record database =
  users :: "UserRow list"
  user_settings :: "UserSettings list"
  monitored_sources :: "MonitoredSource list"
  pending_messages :: "PendingMessageRow list"
  blog_posts :: "BlogPostRow list"
  monitored_sources_seq :: int
  pending_messages_seq :: int
  blog_posts_seq :: int

text \<open>
  Storing a text in a column \<open>VARCHAR(n)\<close>: a text of more than \<open>n\<close> characters is an
  error (\<open>None\<close>), unless all the characters beyond the first \<open>n\<close> are spaces, which are
  then cut off.
\<close>

definition varchar :: "nat \<Rightarrow> string \<Rightarrow> string option" where
  "varchar n s =
     (if length s \<le> n then Some s
      else if list_all (\<lambda>c. c = CHR '' '') (drop n s) then Some (take n s)
      else None)"

text \<open>The numbers a column or a parameter of type \<open>INT\<close> takes.\<close>

definition int4 :: "int \<Rightarrow> bool" where
  "int4 i = (- 2147483648 \<le> i \<and> i \<le> 2147483647)"

section \<open>The world outside the process\<close>

text \<open>
  The JavaScript runtime and the four remote services are parameters of every operation.
  A remote call that rejects is \<open>None\<close>. Strings are sequences of code units below 256.
  One clock value \<open>Date_now\<close> stands for every reading of the clock (\<open>Date.now()\<close>,
  \<open>new Date()\<close>, SQL \<open>NOW()\<close>) within one operation.
  \<open>ctx_reply\<close> says whether a reply of the text handler to that chat is delivered; a reply
  that is not delivered rejects. The replies of the other handlers are taken to be
  delivered. Where a query leaves an order to the database, the world decides it:
  \<open>tie_rank\<close> orders the queue rows of equal timestamp, \<open>owner_rank\<close> orders the owners
  of a tick. Every order the database may choose is the order of some rank.
\<close>

datatype json =
    JNull
  | JBool bool
  | JNumber rat
  | JString string
  | JArray "json list"
  | JObject "(string \<times> json) list"

datatype jsnumber = NaN | PosInfinity | NegInfinity | Finite rat

datatype exn =
    AiCallFailed
  | AiResponseNotJson
  | JsonSyntaxError
  | TypeError
  | NotionFailed
  | GitHubRepoFormat
  | GitHubFailed
  | TelegramFailed
  | DatabaseError

text \<open>
  The two texts \<open>bot.telegram.sendMessage\<close> sends: \<open>PublishedNotice t n g\<close> is the
  "Published" message for title \<open>t\<close> with its Notion line iff \<open>n\<close> and its GitHub line iff
  \<open>g\<close>; \<open>DraftReadyNotice t\<close> is the "New draft ready" message.
\<close>

datatype notice = PublishedNotice string bool bool | DraftReadyNotice string

datatype event =
    ModelCall string
  | NotionCreate string string string "string list"
  | GitHubCreate string string string string "string list"
  | SendMessage int notice

text \<open>
  What a handler sends back, by the text in the source: a \<open>Reply_\<close> is a \<open>ctx.reply\<close>, an
  \<open>AnswerCb_\<close> a \<open>ctx.answerCbQuery\<close>; \<open>PassToNext\<close> is \<open>await next()\<close>. A reply
  carries the values its text is built from: \<open>Reply_status\<close> the four counts,
  \<open>Reply_sources\<close> for each source whether it is active, its title, its type and its id,
  \<open>Reply_pending_post\<close> the id, the title and the snippet of a draft, \<open>Reply_users\<close> for
  each user whether it is authorized, its name and its id.
\<close>

datatype response =
    Reply_not_authorized
  | Reply_welcome
  | AnswerCb_unauthorized
  | AnswerCb_auto_publish bool
  | AnswerCb_empty
  | EditSettingsMenu UserSettings
  | Reply_ask_combine_time
  | Reply_ask_notion_db
  | Reply_ask_github_repo
  | Reply_usage_unsubscribe
  | Reply_unsubscribed
  | AnswerCb_publishing
  | AnswerCb_rejected
  | DeleteMessage
  | Reply_ask_edit
  | Reply_notion_saved
  | Reply_repo_format_warning
  | Reply_repo_saved
  | Reply_positive_integer_warning
  | Reply_combine_updated int
  | Reply_post_updated
  | PassToNext
  | Reply_status nat nat nat nat
  | Reply_settings_menu UserSettings
  | Reply_subscribe_help
  | Reply_no_sources
  | Reply_sources "(bool \<times> string \<times> string \<times> int) list"
  | Reply_no_pending_posts
  | Reply_pending_post int string string
  | Reply_users "(bool \<times> string \<times> int) list"
  | Reply_only_owner_authorize
  | Reply_only_owner_revoke
  | Reply_usage_authorize
  | Reply_usage_revoke
  | Reply_authorized int
  | Reply_revoked int
  | Reply_no_origin
  | Reply_not_a_channel
  | Reply_subscribed string

record world =
  OWNER_USER_ID :: int
  Date_now :: int
  toISOString :: "int \<Rightarrow> string"
  Number_of :: "string \<Rightarrow> jsnumber"
  JSON_parse :: "string \<Rightarrow> json option"
  generateContent :: "string \<Rightarrow> string option"
  notion_pages_create :: "string \<Rightarrow> string \<Rightarrow> string \<Rightarrow> string list \<Rightarrow> string option"
  createOrUpdateFileContents ::
    "string \<Rightarrow> string \<Rightarrow> string \<Rightarrow> string \<Rightarrow> string list \<Rightarrow> string option option"
  telegram_sendMessage :: "int \<Rightarrow> notice \<Rightarrow> bool"
  getFileLink :: "string \<Rightarrow> string option"
  ctx_reply :: "int option \<Rightarrow> response \<Rightarrow> bool"
  tie_rank :: "PendingMessageRow \<Rightarrow> int"
  owner_rank :: "int \<Rightarrow> int"

section \<open>Settings and the publish orchestrator\<close>

text \<open>A string or null in a JavaScript condition: true unless null or empty.\<close>

definition truthy :: "string option \<Rightarrow> bool" where
  "truthy v = (case v of None \<Rightarrow> False | Some s \<Rightarrow> s \<noteq> [])"

text \<open>The default object \<open>getUserSettings\<close> returns for a user without a row has no \<open>updated_at\<close>.\<close>

definition getUserSettings :: "database \<Rightarrow> int \<Rightarrow> UserSettings" where
  "getUserSettings d userId =
     (case filter (\<lambda>r. us_user_id r = userId) (user_settings d) of
        [] \<Rightarrow> \<lparr>us_user_id = userId, auto_publish = False, combine_threshold_minutes = 5,
               notion_database_id = None, github_repo = None, updated_at = None\<rparr>
      | r # _ \<Rightarrow> r)"

definition publishToNotion ::
  "world \<Rightarrow> string \<Rightarrow> string \<Rightarrow> string \<Rightarrow> string list \<Rightarrow> (exn + string) \<times> event list" where
  "publishToNotion w databaseId ti co mediaUrls =
     ((case notion_pages_create w databaseId ti co mediaUrls of
         None \<Rightarrow> Inl NotionFailed
       | Some i \<Rightarrow> Inr i),
      [NotionCreate databaseId ti co mediaUrls])"

text \<open>\<open>String.prototype.split\<close> with a separator of one character.\<close>

fun split_on :: "char \<Rightarrow> string \<Rightarrow> string list" where
  "split_on c [] = [[]]"
| "split_on c (x # xs) =
     (if x = c then [] # split_on c xs
      else (case split_on c xs of [] \<Rightarrow> [[x]] | p # ps \<Rightarrow> (x # p) # ps))"

text \<open>
  The request \<open>publishToGitHub\<close> builds (file name, front matter, base64) is a function of
  its arguments and the clock; the event records the arguments, with the repository split.
\<close>

definition publishToGitHub ::
  "world \<Rightarrow> string \<Rightarrow> string \<Rightarrow> string \<Rightarrow> string list \<Rightarrow> (exn + string) \<times> event list" where
  "publishToGitHub w repo ti co mediaUrls =
     (case split_on CHR ''/'' repo of
        owner # repoName # _ \<Rightarrow>
          if owner = [] \<or> repoName = [] then (Inl GitHubRepoFormat, [])
          else ((case createOrUpdateFileContents w owner repoName ti co mediaUrls of
                   None \<Rightarrow> Inl GitHubFailed
                 | Some sha \<Rightarrow> Inr (case sha of None \<Rightarrow> [] | Some s \<Rightarrow> s)),
                [GitHubCreate owner repoName ti co mediaUrls])
      | _ \<Rightarrow> (Inl GitHubRepoFormat, []))"

text \<open>\<open>UPDATE blog_posts SET status = $1 WHERE id = $2\<close>\<close>

definition set_post_status :: "database \<Rightarrow> post_status \<Rightarrow> int \<Rightarrow> database" where
  "set_post_status d st postId =
     d\<lparr>blog_posts := map (\<lambda>p. if bp_id p = postId then p\<lparr>bp_status := st\<rparr> else p) (blog_posts d)\<rparr>"

text \<open>
  \<open>UPDATE blog_posts SET status = 'published', notion_page_id = $1, github_commit_sha = $2,
  published_at = NOW() WHERE id = $3\<close>
\<close>

definition mark_published ::
  "database \<Rightarrow> string option \<Rightarrow> string option \<Rightarrow> int \<Rightarrow> int \<Rightarrow> database" where
  "mark_published d notionPageId githubSha now postId =
     d\<lparr>blog_posts :=
         map (\<lambda>p. if bp_id p = postId
                  then p\<lparr>bp_status := Published, bp_notion_page_id := notionPageId,
                          bp_github_commit_sha := githubSha, bp_published_at := Some now\<rparr>
                  else p)
           (blog_posts d)\<rparr>"

text \<open>
  The two conditional sink calls of \<open>publishPost\<close>, in their order: Notion, then GitHub.
  An exception of the first skips the second.
\<close>

definition publishSinks ::
  "world \<Rightarrow> UserSettings \<Rightarrow> BlogPostRow \<Rightarrow> (exn + string option \<times> string option) \<times> event list" where
  "publishSinks w settings post =
     (let media = (case bp_media_urls post of None \<Rightarrow> [] | Some m \<Rightarrow> m);
          (r1, ev1) =
            (case notion_database_id settings of
               None \<Rightarrow> (Inr None, [])
             | Some databaseId \<Rightarrow>
                 if databaseId = [] then (Inr None, [])
                 else (case publishToNotion w databaseId (bp_title post) (bp_content post) media of
                         (r, ev) \<Rightarrow> (map_sum id Some r, ev)))
      in case r1 of
           Inl e \<Rightarrow> (Inl e, ev1)
         | Inr notionPageId \<Rightarrow>
             (let (r2, ev2) =
                    (case github_repo settings of
                       None \<Rightarrow> (Inr None, [])
                     | Some repo \<Rightarrow>
                         if repo = [] then (Inr None, [])
                         else (case publishToGitHub w repo (bp_title post) (bp_content post) media of
                                 (r, ev) \<Rightarrow> (map_sum id Some r, ev)))
              in case r2 of
                   Inl e \<Rightarrow> (Inl e, ev1 @ ev2)
                 | Inr githubSha \<Rightarrow> (Inr (notionPageId, githubSha), ev1 @ ev2)))"

definition publishPost :: "world \<Rightarrow> database \<Rightarrow> int \<Rightarrow> int \<Rightarrow> database \<times> event list" where
  "publishPost w d postId userId =
     (let d1 = set_post_status d Publishing postId in
      case filter (\<lambda>p. bp_id p = postId \<and> bp_user_id p = userId) (blog_posts d1) of
        [] \<Rightarrow> (d1, [])
      | post # _ \<Rightarrow>
          (let settings = getUserSettings d1 userId in
           case publishSinks w settings post of
             (Inl e, ev) \<Rightarrow> (set_post_status d1 Failed postId, ev)
           | (Inr (notionPageId, githubSha), ev) \<Rightarrow>
               (let d2 = mark_published d1 notionPageId githubSha (Date_now w) postId;
                    n = PublishedNotice (bp_title post) (truthy notionPageId) (truthy githubSha)
                in if telegram_sendMessage w userId n
                   then (d2, ev @ [SendMessage userId n])
                   else (set_post_status d2 Failed postId, ev @ [SendMessage userId n]))))"

section \<open>The classifier adapter\<close>

record AnalysisResult =
  shouldCombine :: bool
  isInformational :: bool
  suggestedTitle :: string
  combinedContent :: string

text \<open>\<open>String(n)\<close> for a non-negative integer.\<close>

fun show_nat :: "nat \<Rightarrow> string" where
  "show_nat n =
     (if n < 10 then [''0123456789'' ! n] else show_nat (n div 10) @ [''0123456789'' ! (n mod 10)])"

declare show_nat.simps [simp del]

definition show_int :: "int \<Rightarrow> string" where
  "show_int i = (if i < 0 then CHR ''-'' # show_nat (nat (- i)) else show_nat (nat i))"

text \<open>\<open>Array.prototype.join\<close>\<close>

fun join :: "string \<Rightarrow> string list \<Rightarrow> string" where
  "join sep [] = []"
| "join sep [x] = x"
| "join sep (x # y # ys) = x @ sep @ join sep (y # ys)"

text \<open>\<open>String.prototype.trim\<close>: the white space among the code units below 256.\<close>

definition is_space :: "char \<Rightarrow> bool" where
  "is_space c = (c \<in> set [CHR 0x09, CHR 0x0A, CHR 0x0B, CHR 0x0C, CHR 0x0D, CHR 0x20, CHR 0xA0])"

definition trim :: "string \<Rightarrow> string" where
  "trim s = rev (dropWhile is_space (rev (dropWhile is_space s)))"

definition or_unknown :: "string option \<Rightarrow> string" where
  "or_unknown v = (case v of None \<Rightarrow> ''Unknown'' | Some s \<Rightarrow> s)"

definition or_empty :: "string option \<Rightarrow> string" where
  "or_empty v = (case v of None \<Rightarrow> [] | Some s \<Rightarrow> s)"

definition messageText :: "world \<Rightarrow> nat \<Rightarrow> PendingMessageRow \<Rightarrow> string" where
  "messageText w index m =
     ''[Message '' @ show_nat (index + 1) @ ''] '' @ or_unknown (pm_sender m) @ '' at '' @
     toISOString w (pm_timestamp m) @ '': '' @ or_empty (pm_text m)"

definition prompt_head :: string where
  \<open>prompt_head = ''Analyze these Telegram messages and determine:\<newline>1. Are they informational content suitable for a blog/wiki post? (vs casual conversation)\<newline>2. Should they be combined into one post or kept separate?\<newline>3. Suggest a title for the blog post\<newline>4. Create a combined, well-formatted content if they should be combined\<newline>\<newline>Messages:\<newline>''\<close>

definition prompt_tail :: string where
  \<open>prompt_tail = ''\<newline>\<newline>Respond in JSON format:\<newline>{\<newline>  "shouldCombine": boolean,\<newline>  "isInformational": boolean,\<newline>  "suggestedTitle": "string",\<newline>  "combinedContent": "string (markdown formatted)",\<newline>  "reasoning": "string"\<newline>}''\<close>

definition buildPrompt :: "world \<Rightarrow> PendingMessageRow list \<Rightarrow> string" where
  "buildPrompt w messages =
     prompt_head @
     join ''\<newline>\<newline>'' (map (\<lambda>(index, m). messageText w index m) (enumerate 0 messages)) @
     prompt_tail"

text \<open>
  \<open>responseText.match(/\{[\s\S]*\}/)\<close>: the text from the first opening brace to the last
  closing brace after it, or no match.
\<close>

definition jsonMatch :: "string \<Rightarrow> string option" where
  "jsonMatch responseText =
     (case dropWhile (\<lambda>c. c \<noteq> CHR ''{'') responseText of
        [] \<Rightarrow> None
      | b # r \<Rightarrow>
          (case dropWhile (\<lambda>c. c \<noteq> CHR ''}'') (rev r) of
             [] \<Rightarrow> None
           | t \<Rightarrow> Some (b # rev t)))"

text \<open>
  Reading a property of the parsed value: \<open>None\<close> is \<open>undefined\<close>. Of two equal keys in a
  JSON text the later one stays.
\<close>

fun get_prop :: "json \<Rightarrow> string \<Rightarrow> json option" where
  "get_prop (JObject kvs) k = map_of (rev kvs) k"
| "get_prop _ k = None"

fun js_Boolean :: "json option \<Rightarrow> bool" where
  "js_Boolean None = False"
| "js_Boolean (Some JNull) = False"
| "js_Boolean (Some (JBool b)) = b"
| "js_Boolean (Some (JNumber q)) = (q \<noteq> 0)"
| "js_Boolean (Some (JString s)) = (s \<noteq> [])"
| "js_Boolean (Some (JArray xs)) = True"
| "js_Boolean (Some (JObject kvs)) = True"

text \<open>\<open>v?.trim() ?? ''\<close>: a value that is neither nullish nor a string has no \<open>trim\<close>.\<close>

fun trim_or_empty :: "json option \<Rightarrow> exn + string" where
  "trim_or_empty None = Inr []"
| "trim_or_empty (Some JNull) = Inr []"
| "trim_or_empty (Some (JString s)) = Inr (trim s)"
| "trim_or_empty (Some _) = Inl TypeError"

definition readAnalysis :: "json \<Rightarrow> exn + AnalysisResult" where
  "readAnalysis parsed =
     (if parsed = JNull then Inl TypeError
      else (case trim_or_empty (get_prop parsed ''suggestedTitle'') of
              Inl e \<Rightarrow> Inl e
            | Inr ti \<Rightarrow>
                (case trim_or_empty (get_prop parsed ''combinedContent'') of
                   Inl e \<Rightarrow> Inl e
                 | Inr co \<Rightarrow>
                     Inr \<lparr>shouldCombine = js_Boolean (get_prop parsed ''shouldCombine''),
                          isInformational = js_Boolean (get_prop parsed ''isInformational''),
                          suggestedTitle = ti, combinedContent = co\<rparr>)))"

text \<open>What \<open>analyzeMessages\<close> does with the text the model returned.\<close>

definition parseResponse :: "world \<Rightarrow> string \<Rightarrow> exn + AnalysisResult" where
  "parseResponse w responseText =
     (case jsonMatch responseText of
        None \<Rightarrow> Inl AiResponseNotJson
      | Some matched \<Rightarrow>
          (case JSON_parse w matched of
             None \<Rightarrow> Inl JsonSyntaxError
           | Some parsed \<Rightarrow> readAnalysis parsed))"

definition analyzeMessages ::
  "world \<Rightarrow> PendingMessageRow list \<Rightarrow> (exn + AnalysisResult) \<times> event list" where
  "analyzeMessages w messages =
     (let prompt = buildPrompt w messages in
      ((case generateContent w prompt of
          None \<Rightarrow> Inl AiCallFailed
        | Some responseText \<Rightarrow> parseResponse w responseText),
       [ModelCall prompt]))"

section \<open>The periodic batcher\<close>

text \<open>
  \<open>SELECT pm.* FROM pending_messages pm JOIN monitored_sources ms ON pm.source_id = ms.id
  WHERE ms.user_id = $1 AND pm.is_processed = false ORDER BY pm.timestamp ASC\<close>.
  The rows come by timestamp, and those of equal timestamp by their rank in the world.
\<close>

definition fetchUnprocessed :: "world \<Rightarrow> database \<Rightarrow> int \<Rightarrow> PendingMessageRow list" where
  "fetchUnprocessed w d userId =
     sort_key (\<lambda>pm. (pm_timestamp pm, tie_rank w pm))
       [pm. pm \<leftarrow> pending_messages d, ms \<leftarrow> monitored_sources d,
            pm_source_id pm = ms_id ms, ms_user_id ms = userId \<and> pm_is_processed pm = False]"

definition recentMessages :: "world \<Rightarrow> UserSettings \<Rightarrow> PendingMessageRow list \<Rightarrow> PendingMessageRow list" where
  "recentMessages w settings rows =
     (let timeThreshold = Date_now w - combine_threshold_minutes settings * 60 * 1000
      in filter (\<lambda>message. pm_timestamp message \<ge> timeThreshold) rows)"

text \<open>\<open>UPDATE pending_messages SET is_processed = true WHERE id = ANY($1)\<close>\<close>

definition mark_processed :: "database \<Rightarrow> int list \<Rightarrow> database" where
  "mark_processed d ids =
     d\<lparr>pending_messages :=
         map (\<lambda>m. if pm_id m \<in> set ids then m\<lparr>pm_is_processed := True\<rparr> else m) (pending_messages d)\<rparr>"

text \<open>
  \<open>INSERT INTO blog_posts (...) VALUES (...) RETURNING id\<close>. The column \<open>title\<close> is a
  \<open>VARCHAR(500)\<close>: the statement fails (\<open>None\<close>) for a title the column cannot store.
\<close>

definition insert_blog_post ::
  "database \<Rightarrow> int \<Rightarrow> string \<Rightarrow> string \<Rightarrow> string list \<Rightarrow> int list \<Rightarrow> post_status \<Rightarrow> int
     \<Rightarrow> (database \<times> int) option" where
  "insert_blog_post d userId ti co mediaUrls sourceMessages st now =
     (case varchar 500 ti of
        None \<Rightarrow> None
      | Some stored \<Rightarrow>
          (let i = blog_posts_seq d + 1
           in Some (d\<lparr>blog_posts := blog_posts d @
                      [\<lparr>bp_id = i, bp_user_id = userId, bp_title = stored, bp_content = co,
                        bp_media_urls = Some mediaUrls, bp_source_messages = sourceMessages,
                        bp_notion_page_id = None, bp_github_commit_sha = None, bp_status = st,
                        bp_created_at = now, bp_published_at = None\<rparr>],
                    blog_posts_seq := i\<rparr>, i)))"

text \<open>
  \<open>analysis.suggestedTitle || `Telegram Update ${new Date().toISOString()}`\<close>: the title of
  a draft.
\<close>

definition draftTitle :: "world \<Rightarrow> AnalysisResult \<Rightarrow> string" where
  "draftTitle w analysis =
     (if suggestedTitle analysis = [] then ''Telegram Update '' @ toISOString w (Date_now w)
      else suggestedTitle analysis)"

text \<open>The body a draft gets when the classifier returned no combined content.\<close>

definition fallbackContent :: "world \<Rightarrow> PendingMessageRow list \<Rightarrow> string" where
  "fallbackContent w messages =
     join ''\<newline>\<newline>''
       (map (\<lambda>m. ''**'' @ or_unknown (pm_sender m) @ ''** ('' @ toISOString w (pm_timestamp m) @
                  ''):\<newline>'' @ or_empty (pm_text m)) messages)"

text \<open>
  One iteration of the loop of \<open>processMessages\<close>. The first component is the exception
  that leaves the iteration, if any.
\<close>

definition processUser :: "world \<Rightarrow> database \<Rightarrow> int \<Rightarrow> exn option \<times> database \<times> event list" where
  "processUser w d userId =
     (let settings = getUserSettings d userId;
          rows = fetchUnprocessed w d userId
      in if rows = [] then (None, d, [])
         else
          (let recent = recentMessages w settings rows
           in if recent = [] then (None, d, [])
              else
               (case analyzeMessages w recent of
                  (Inl e, ev) \<Rightarrow> (Some e, d, ev)
                | (Inr analysis, ev) \<Rightarrow>
                    if \<not> isInformational analysis
                    then (None, mark_processed d (map pm_id recent), ev)
                    else
                     (let mediaUrls = concat (map (\<lambda>m. case pm_media_urls m of None \<Rightarrow> [] | Some u \<Rightarrow> u) recent);
                          co = (if combinedContent analysis = [] then fallbackContent w recent
                                else combinedContent analysis);
                          ti = draftTitle w analysis
                      in case insert_blog_post d userId ti co mediaUrls (map pm_id recent)
                                (if auto_publish settings then Publishing else Pending)
                                (Date_now w) of
                           None \<Rightarrow> (Some DatabaseError, d, ev)
                         | Some (d1, postId) \<Rightarrow>
                             (let d2 = mark_processed d1 (map pm_id recent)
                              in if auto_publish settings
                                 then (if postId \<noteq> 0
                                       then (case publishPost w d2 postId userId of
                                               (d3, ev3) \<Rightarrow> (None, d3, ev @ ev3))
                                       else (None, d2, ev))
                                 else (let n = DraftReadyNotice ti
                                       in if telegram_sendMessage w userId n
                                          then (None, d2, ev @ [SendMessage userId n])
                                          else (Some TelegramFailed, d2,
                                                ev @ [SendMessage userId n])))))))"

text \<open>
  The loop over the owners, inside the one \<open>try\<close> of \<open>processMessages\<close>: an exception
  of an iteration ends the loop.
\<close>

fun processLoop :: "world \<Rightarrow> database \<Rightarrow> int list \<Rightarrow> database \<times> event list" where
  "processLoop w d [] = (d, [])"
| "processLoop w d (u # us) =
     (case processUser w d u of
        (Some e, d1, ev) \<Rightarrow> (d1, ev)
      | (None, d1, ev) \<Rightarrow> (case processLoop w d1 us of (d2, ev2) \<Rightarrow> (d2, ev @ ev2)))"

text \<open>
  \<open>SELECT DISTINCT user_id FROM user_settings\<close> has no \<open>ORDER BY\<close>: the owners come in
  the order of their rank in the world.
\<close>

definition distinct_owners :: "world \<Rightarrow> database \<Rightarrow> int list" where
  "distinct_owners w d = sort_key (owner_rank w) (remdups (map us_user_id (user_settings d)))"

definition processMessages :: "world \<Rightarrow> database \<Rightarrow> database \<times> event list" where
  "processMessages w d = processLoop w d (distinct_owners w d)"

section \<open>The ingestion handler\<close>

record TgUser =
  tu_id :: int
  tu_username :: "string option"
  tu_first_name :: string
  tu_last_name :: "string option"

text \<open>
  The fields of a Telegram message the handlers read. \<open>m_photo\<close> lists the file ids of the
  photo sizes; the other attachments are their file id, when present.
\<close>

record TgMessage =
  m_message_id :: int
  m_date :: "int option"
  m_text :: "string option"
  m_caption :: "string option"
  m_author_signature :: "string option"
  m_sender_chat_title :: "string option"
  m_from :: "TgUser option"
  m_message_thread_id :: "int option"
  m_photo :: "string list option"
  m_document :: "string option"
  m_video :: "string option"
  m_animation :: "string option"
  m_audio :: "string option"

definition getSenderName :: "TgMessage \<Rightarrow> string" where
  "getSenderName message =
     (if truthy (m_author_signature message) then or_empty (m_author_signature message)
      else if truthy (m_sender_chat_title message) then or_empty (m_sender_chat_title message)
      else (case m_from message of
              None \<Rightarrow> ''Unknown''
            | Some u \<Rightarrow>
                if truthy (tu_username u) then CHR ''@'' # or_empty (tu_username u)
                else (let parts = filter (\<lambda>part. part \<noteq> [])
                                    (tu_first_name u # (case tu_last_name u of None \<Rightarrow> [] | Some l \<Rightarrow> [l]))
                      in if parts = [] then show_int (tu_id u) else join '' '' parts)))"

definition extractMessageText :: "TgMessage \<Rightarrow> string" where
  "extractMessageText message =
     (if truthy (m_text message) then or_empty (m_text message)
      else if truthy (m_caption message) then or_empty (m_caption message)
      else [])"

text \<open>\<open>collectFile\<close>: a link that cannot be resolved is left out.\<close>

definition collectFile :: "world \<Rightarrow> string option \<Rightarrow> string list" where
  "collectFile w fileId =
     (if truthy fileId
      then (case getFileLink w (or_empty fileId) of None \<Rightarrow> [] | Some href \<Rightarrow> [href])
      else [])"

definition extractMediaUrls :: "world \<Rightarrow> TgMessage \<Rightarrow> string list" where
  "extractMediaUrls w message =
     (case m_photo message of
        None \<Rightarrow> []
      | Some sizes \<Rightarrow> if sizes = [] then [] else collectFile w (Some (last sizes))) @
     collectFile w (m_document message) @
     collectFile w (m_video message) @
     collectFile w (m_animation message) @
     collectFile w (m_audio message)"

text \<open>
  \<open>INSERT INTO pending_messages (...) VALUES (...) ON CONFLICT (source_id, message_id)
  DO NOTHING\<close>. The id is drawn from the sequence before the conflict is seen, so a
  conflicting insert still advances the sequence.
\<close>

definition insert_pending_message ::
  "database \<Rightarrow> int \<Rightarrow> int \<Rightarrow> string option \<Rightarrow> string list \<Rightarrow> string \<Rightarrow> int \<Rightarrow> database" where
  "insert_pending_message d sourceId messageId txt mediaUrls senderName ts =
     (let i = pending_messages_seq d + 1
      in if list_ex (\<lambda>r. pm_source_id r = sourceId \<and> pm_message_id r = messageId) (pending_messages d)
         then d\<lparr>pending_messages_seq := i\<rparr>
         else d\<lparr>pending_messages := pending_messages d @
                  [\<lparr>pm_id = i, pm_source_id = sourceId, pm_message_id = messageId, pm_text = txt,
                    pm_media_urls = Some mediaUrls, pm_sender = Some senderName,
                    pm_timestamp = ts, pm_is_processed = False\<rparr>],
                pending_messages_seq := i\<rparr>)"

definition storePendingMessage :: "world \<Rightarrow> database \<Rightarrow> MonitoredSource \<Rightarrow> TgMessage \<Rightarrow> database" where
  "storePendingMessage w d source message =
     (let txt = extractMessageText message;
          mediaUrls = extractMediaUrls w message
      in if txt = [] \<and> mediaUrls = [] then d
         else
          (let ts = (case m_date message of None \<Rightarrow> Date_now w div 1000 | Some s \<Rightarrow> s) * 1000
           in insert_pending_message d (ms_id source) (m_message_id message)
                (if txt = [] then None else Some txt) mediaUrls (getSenderName message) ts))"

definition handleIncomingMessage :: "world \<Rightarrow> database \<Rightarrow> int option \<Rightarrow> TgMessage \<Rightarrow> database" where
  "handleIncomingMessage w d chat message =
     (case chat of
        None \<Rightarrow> d
      | Some chatId \<Rightarrow>
          (let topicId = m_message_thread_id message;
               sources = filter (\<lambda>ms. ms_chat_id ms = chatId \<and> ms_is_active ms \<and>
                                      (topicId = None \<or> ms_topic_id ms = None \<or> ms_topic_id ms = topicId))
                           (monitored_sources d)
           in fold (\<lambda>source d'. storePendingMessage w d' source message) sources d))"

section \<open>The command and response layer\<close>

datatype UserState = set_notion_db | set_github_repo | set_combine_time | edit_post int

text \<open>The process state: the database and the in-memory map \<open>userStates\<close>.\<close>

record bot =
  db :: database
  userStates :: "int \<Rightarrow> UserState option"

definition isAuthorized :: "database \<Rightarrow> int \<Rightarrow> bool" where
  "isAuthorized d userId =
     (case filter (\<lambda>r. u_user_id r = userId) (users d) of
        [] \<Rightarrow> False
      | r # _ \<Rightarrow> u_is_authorized r)"

text \<open>The two \<open>INSERT ... ON CONFLICT (user_id) DO NOTHING\<close> of \<open>upsertUser\<close>.\<close>

definition upsertUser :: "world \<Rightarrow> database \<Rightarrow> int \<Rightarrow> string option \<Rightarrow> database" where
  "upsertUser w d userId username =
     (let d1 = (if list_ex (\<lambda>r. u_user_id r = userId) (users d) then d
                else d\<lparr>users := users d @
                       [\<lparr>u_user_id = userId, u_username = username,
                         u_is_authorized = (userId = OWNER_USER_ID w),
                         u_created_at = Date_now w\<rparr>]\<rparr>)
      in if list_ex (\<lambda>r. us_user_id r = userId) (user_settings d1) then d1
         else d1\<lparr>user_settings := user_settings d1 @
                  [\<lparr>us_user_id = userId, auto_publish = False, combine_threshold_minutes = 5,
                    notion_database_id = None, github_repo = None, updated_at = Some (Date_now w)\<rparr>]\<rparr>)"

definition bot_start :: "world \<Rightarrow> bot \<Rightarrow> int \<Rightarrow> string option \<Rightarrow> bot \<times> response list" where
  "bot_start w s fromId username =
     (let s1 = s\<lparr>db := upsertUser w (db s) fromId username\<rparr>
      in if \<not> isAuthorized (db s1) fromId then (s1, [Reply_not_authorized])
         else (s1, [Reply_welcome]))"

text \<open>\<open>UPDATE user_settings SET ..., updated_at = NOW() WHERE user_id = $n\<close>\<close>

definition update_settings :: "database \<Rightarrow> int \<Rightarrow> int \<Rightarrow> (UserSettings \<Rightarrow> UserSettings) \<Rightarrow> database" where
  "update_settings d userId now f =
     d\<lparr>user_settings :=
         map (\<lambda>r. if us_user_id r = userId then (f r)\<lparr>updated_at := Some now\<rparr> else r)
           (user_settings d)\<rparr>"

definition action_toggle_auto_publish :: "world \<Rightarrow> bot \<Rightarrow> int \<Rightarrow> bot \<times> response list" where
  "action_toggle_auto_publish w s userId =
     (if \<not> isAuthorized (db s) userId then (s, [AnswerCb_unauthorized])
      else
       (let d1 = update_settings (db s) userId (Date_now w) (\<lambda>r. r\<lparr>auto_publish := \<not> auto_publish r\<rparr>);
            settings = getUserSettings d1 userId
        in (s\<lparr>db := d1\<rparr>, [AnswerCb_auto_publish (auto_publish settings), EditSettingsMenu settings])))"

definition action_set_combine_time :: "bot \<Rightarrow> int \<Rightarrow> bot \<times> response list" where
  "action_set_combine_time s fromId =
     (if \<not> isAuthorized (db s) fromId then (s, [AnswerCb_unauthorized])
      else (s\<lparr>userStates := (userStates s)(fromId \<mapsto> set_combine_time)\<rparr>,
            [AnswerCb_empty, Reply_ask_combine_time]))"

definition action_set_notion_db :: "bot \<Rightarrow> int \<Rightarrow> bot \<times> response list" where
  "action_set_notion_db s fromId =
     (if \<not> isAuthorized (db s) fromId then (s, [AnswerCb_unauthorized])
      else (s\<lparr>userStates := (userStates s)(fromId \<mapsto> set_notion_db)\<rparr>,
            [AnswerCb_empty, Reply_ask_notion_db]))"

definition action_set_github_repo :: "bot \<Rightarrow> int \<Rightarrow> bot \<times> response list" where
  "action_set_github_repo s fromId =
     (if \<not> isAuthorized (db s) fromId then (s, [AnswerCb_unauthorized])
      else (s\<lparr>userStates := (userStates s)(fromId \<mapsto> set_github_repo)\<rparr>,
            [AnswerCb_empty, Reply_ask_github_repo]))"

fun Number_isInteger :: "jsnumber \<Rightarrow> bool" where
  "Number_isInteger (Finite q) = (q = of_int \<lfloor>q\<rfloor>)"
| "Number_isInteger _ = False"

text \<open>The integer a number that passed \<open>Number.isInteger\<close> is.\<close>

fun integer_of :: "jsnumber \<Rightarrow> int" where
  "integer_of (Finite q) = \<lfloor>q\<rfloor>"
| "integer_of _ = 0"

text \<open>\<open>n <= 0\<close>\<close>

fun le_zero :: "jsnumber \<Rightarrow> bool" where
  "le_zero (Finite q) = (q \<le> 0)"
| "le_zero NegInfinity = True"
| "le_zero _ = False"

text \<open>\<open>Number(parts[1])\<close> for \<open>parts = text.split(' ')\<close>; \<open>Number(undefined)\<close> is \<open>NaN\<close>.\<close>

definition second_part_number :: "world \<Rightarrow> string \<Rightarrow> jsnumber" where
  "second_part_number w txt =
     (case split_on CHR '' '' txt of _ # p # _ \<Rightarrow> Number_of w p | _ \<Rightarrow> NaN)"

definition command_unsubscribe :: "world \<Rightarrow> bot \<Rightarrow> int \<Rightarrow> string \<Rightarrow> bot \<times> response list" where
  "command_unsubscribe w s fromId txt =
     (if \<not> isAuthorized (db s) fromId then (s, [])
      else
       (let sourceId = second_part_number w txt
        in if \<not> Number_isInteger sourceId then (s, [Reply_usage_unsubscribe])
           else (s\<lparr>db := (db s)\<lparr>monitored_sources :=
                       map (\<lambda>ms. if ms_id ms = integer_of sourceId \<and> ms_user_id ms = fromId
                                  then ms\<lparr>ms_is_active := False\<rparr> else ms)
                         (monitored_sources (db s))\<rparr>\<rparr>,
                 [Reply_unsubscribed])))"

text \<open>The menu handlers \<open>bot.hears\<close>: they read the tables and reply.\<close>

definition hears_status :: "bot \<Rightarrow> int \<Rightarrow> bot \<times> response list" where
  "hears_status s fromId =
     (if \<not> isAuthorized (db s) fromId then (s, [])
      else
       (s, [Reply_status
              (length (filter (\<lambda>ms. ms_user_id ms = fromId \<and> ms_is_active ms)
                         (monitored_sources (db s))))
              (length [pm. pm \<leftarrow> pending_messages (db s), ms \<leftarrow> monitored_sources (db s),
                           pm_source_id pm = ms_id ms,
                           ms_user_id ms = fromId \<and> pm_is_processed pm = False])
              (length (filter (\<lambda>p. bp_user_id p = fromId \<and> bp_status p = Pending)
                         (blog_posts (db s))))
              (length (filter (\<lambda>p. bp_user_id p = fromId \<and> bp_status p = Published)
                         (blog_posts (db s))))]))"

definition hears_settings :: "bot \<Rightarrow> int \<Rightarrow> bot \<times> response list" where
  "hears_settings s fromId =
     (if \<not> isAuthorized (db s) fromId then (s, [])
      else (s, [Reply_settings_menu (getUserSettings (db s) fromId)]))"

definition hears_subscribe :: "bot \<Rightarrow> int \<Rightarrow> bot \<times> response list" where
  "hears_subscribe s fromId =
     (if \<not> isAuthorized (db s) fromId then (s, []) else (s, [Reply_subscribe_help]))"

text \<open>\<open>ORDER BY created_at DESC\<close>\<close>

definition newest_first :: "('a \<Rightarrow> int) \<Rightarrow> 'a list \<Rightarrow> 'a list" where
  "newest_first created rows = rev (sort_key created rows)"

definition hears_list_sources :: "bot \<Rightarrow> int \<Rightarrow> bot \<times> response list" where
  "hears_list_sources s fromId =
     (if \<not> isAuthorized (db s) fromId then (s, [])
      else
       (let sources = newest_first ms_created_at
                        (filter (\<lambda>ms. ms_user_id ms = fromId) (monitored_sources (db s)))
        in if sources = [] then (s, [Reply_no_sources])
           else (s, [Reply_sources
                       (map (\<lambda>ms. (ms_is_active ms,
                                    (case ms_chat_title ms of None \<Rightarrow> ''Unnamed chat'' | Some t \<Rightarrow> t),
                                    ms_chat_type ms, ms_id ms))
                          sources)])))"

text \<open>\<open>content.slice(0, 500)\<close>, with three dots after a longer content.\<close>

definition snippet :: "string \<Rightarrow> string" where
  "snippet co = take 500 co @ (if length co > 500 then ''...'' else [])"

definition hears_pending_posts :: "bot \<Rightarrow> int \<Rightarrow> bot \<times> response list" where
  "hears_pending_posts s fromId =
     (if \<not> isAuthorized (db s) fromId then (s, [])
      else
       (let posts = take 10 (newest_first bp_created_at
                      (filter (\<lambda>p. bp_user_id p = fromId \<and> bp_status p = Pending)
                         (blog_posts (db s))))
        in if posts = [] then (s, [Reply_no_pending_posts])
           else (s, map (\<lambda>p. Reply_pending_post (bp_id p) (bp_title p) (snippet (bp_content p)))
                      posts)))"

definition hears_manage_users :: "bot \<Rightarrow> int \<Rightarrow> bot \<times> response list" where
  "hears_manage_users s fromId =
     (if \<not> isAuthorized (db s) fromId then (s, [])
      else (s, [Reply_users
                  (map (\<lambda>u. (u_is_authorized u,
                              (case u_username u of None \<Rightarrow> ''unknown'' | Some n \<Rightarrow> n),
                              u_user_id u))
                     (newest_first u_created_at (users (db s))))]))"

text \<open>
  \<open>/authorize\<close> and \<open>/revoke\<close>, open to the owner alone; \<open>fromId\<close> is \<open>ctx.from?.id\<close>.
\<close>

definition set_authorized :: "database \<Rightarrow> int \<Rightarrow> bool \<Rightarrow> database" where
  "set_authorized d userId b =
     d\<lparr>users := map (\<lambda>u. if u_user_id u = userId then u\<lparr>u_is_authorized := b\<rparr> else u) (users d)\<rparr>"

definition command_authorize :: "world \<Rightarrow> bot \<Rightarrow> int option \<Rightarrow> string \<Rightarrow> bot \<times> response list" where
  "command_authorize w s fromId txt =
     (if fromId \<noteq> Some (OWNER_USER_ID w) then (s, [Reply_only_owner_authorize])
      else
       (let userId = second_part_number w txt
        in if \<not> Number_isInteger userId then (s, [Reply_usage_authorize])
           else (s\<lparr>db := set_authorized (db s) (integer_of userId) True\<rparr>,
                 [Reply_authorized (integer_of userId)])))"

definition command_revoke :: "world \<Rightarrow> bot \<Rightarrow> int option \<Rightarrow> string \<Rightarrow> bot \<times> response list" where
  "command_revoke w s fromId txt =
     (if fromId \<noteq> Some (OWNER_USER_ID w) then (s, [Reply_only_owner_revoke])
      else
       (let userId = second_part_number w txt
        in if \<not> Number_isInteger userId then (s, [Reply_usage_revoke])
           else (s\<lparr>db := set_authorized (db s) (integer_of userId) False\<rparr>,
                 [Reply_revoked (integer_of userId)])))"

text \<open>
  The handler \<open>bot.on(message('forward_origin'))\<close>, which subscribes to a channel. An
  origin of type channel carries the id and the title of its chat. The row inserted has no
  topic id, and the unique constraint \<open>(user_id, chat_id, topic_id)\<close> holds no two nulls for
  equal, so the insert meets no conflict and always adds a row.
\<close>

datatype forward_origin = Origin_channel int "string option" | Origin_other

definition on_forward_origin ::
  "world \<Rightarrow> bot \<Rightarrow> int \<Rightarrow> forward_origin option \<Rightarrow> bot \<times> response list" where
  "on_forward_origin w s fromId forwardOrigin =
     (if \<not> isAuthorized (db s) fromId then (s, [])
      else
       (case forwardOrigin of
          None \<Rightarrow> (s, [Reply_no_origin])
        | Some Origin_other \<Rightarrow> (s, [Reply_not_a_channel])
        | Some (Origin_channel chatId chatName) \<Rightarrow>
            (let chatTitle = (if truthy chatName then or_empty chatName else ''Unnamed channel'');
                 i = monitored_sources_seq (db s) + 1
             in (s\<lparr>db := (db s)\<lparr>monitored_sources := monitored_sources (db s) @
                              [\<lparr>ms_id = i, ms_user_id = fromId, ms_chat_id = chatId,
                                ms_chat_title = Some chatTitle, ms_chat_type = ''channel'',
                                ms_topic_id = None, ms_is_active = True,
                                ms_created_at = Date_now w\<rparr>],
                            monitored_sources_seq := i\<rparr>\<rparr>,
                 [Reply_subscribed chatTitle]))))"

text \<open>
  The callbacks \<open>publish_N\<close>, \<open>reject_N\<close> and \<open>edit_N\<close>, with \<open>postId\<close> the number
  \<open>N\<close> of the callback data.
\<close>

definition action_publish :: "world \<Rightarrow> bot \<Rightarrow> int \<Rightarrow> int \<Rightarrow> bot \<times> response list \<times> event list" where
  "action_publish w s fromId postId =
     (case publishPost w (db s) postId fromId of
        (d1, ev) \<Rightarrow> (s\<lparr>db := d1\<rparr>, [AnswerCb_publishing, DeleteMessage], ev))"

definition action_reject :: "bot \<Rightarrow> int \<Rightarrow> int \<Rightarrow> bot \<times> response list" where
  "action_reject s fromId postId =
     (s\<lparr>db := (db s)\<lparr>blog_posts :=
            filter (\<lambda>p. \<not> (bp_id p = postId \<and> bp_user_id p = fromId)) (blog_posts (db s))\<rparr>\<rparr>,
      [AnswerCb_rejected, DeleteMessage])"

definition action_edit :: "bot \<Rightarrow> int \<Rightarrow> int \<Rightarrow> bot \<times> response list" where
  "action_edit s fromId postId =
     (s\<lparr>userStates := (userStates s)(fromId \<mapsto> edit_post postId)\<rparr>, [AnswerCb_empty, Reply_ask_edit])"

text \<open>\<open>/^[^/]+\/[^/]+$/.test(text)\<close>\<close>

definition repo_format :: "string \<Rightarrow> bool" where
  "repo_format txt = (case split_on CHR ''/'' txt of [a, b] \<Rightarrow> a \<noteq> [] \<and> b \<noteq> [] | _ \<Rightarrow> False)"

text \<open>
  The handler \<open>bot.on(message('text'))\<close>. \<open>is_private\<close> says whether \<open>ctx.chat.type\<close> is
  \<open>'private'\<close>; \<open>chat\<close> is the id of \<open>ctx.chat\<close>. The first component of the result is
  the exception that leaves the handler, if any: that of an \<open>UPDATE\<close> whose value does not
  fit its column (\<open>notion_database_id\<close> and \<open>github_repo\<close> are \<open>VARCHAR(255)\<close>,
  \<open>combine_threshold_minutes\<close> and the id of a post are \<open>INT\<close>), or that of a reply that
  is not delivered. \<open>userStates.delete\<close> is the last statement of the handler: it is
  reached only when no statement before it throws or returns.
\<close>

text \<open>\<open>await ctx.reply(...); return;\<close>\<close>

definition reply_and_return ::
  "world \<Rightarrow> bot \<Rightarrow> int option \<Rightarrow> response \<Rightarrow> exn option \<times> bot \<times> response list" where
  "reply_and_return w s chat r =
     (if ctx_reply w chat r then (None, s, [r]) else (Some TelegramFailed, s, [r]))"

text \<open>\<open>await ctx.reply(...); break;\<close> and, after the \<open>switch\<close>, \<open>userStates.delete(ctx.from!.id)\<close>\<close>

definition reply_and_delete ::
  "world \<Rightarrow> bot \<Rightarrow> int option \<Rightarrow> int \<Rightarrow> response \<Rightarrow> exn option \<times> bot \<times> response list" where
  "reply_and_delete w s chat fromId r =
     (if ctx_reply w chat r then (None, s\<lparr>userStates := (userStates s)(fromId := None)\<rparr>, [r])
      else (Some TelegramFailed, s, [r]))"

definition on_text ::
  "world \<Rightarrow> bot \<Rightarrow> bool \<Rightarrow> int option \<Rightarrow> TgMessage \<Rightarrow> exn option \<times> bot \<times> response list" where
  "on_text w s is_private chat message =
     (if \<not> is_private then (None, s\<lparr>db := handleIncomingMessage w (db s) chat message\<rparr>, [])
      else
       (case m_from message of
          None \<Rightarrow> (None, s, [PassToNext])
        | Some u \<Rightarrow>
            (case userStates s (tu_id u) of
               None \<Rightarrow> (None, s, [PassToNext])
             | Some st \<Rightarrow>
                 (let txt = trim (or_empty (m_text message))
                  in case st of
                       set_notion_db \<Rightarrow>
                         (case varchar 255 txt of
                            None \<Rightarrow> (Some DatabaseError, s, [])
                          | Some stored \<Rightarrow>
                              reply_and_delete w
                                (s\<lparr>db := update_settings (db s) (tu_id u) (Date_now w)
                                           (\<lambda>r. r\<lparr>notion_database_id := Some stored\<rparr>)\<rparr>)
                                chat (tu_id u) Reply_notion_saved)
                     | set_github_repo \<Rightarrow>
                         if \<not> repo_format txt
                         then reply_and_return w s chat Reply_repo_format_warning
                         else
                          (case varchar 255 txt of
                             None \<Rightarrow> (Some DatabaseError, s, [])
                           | Some stored \<Rightarrow>
                               reply_and_delete w
                                 (s\<lparr>db := update_settings (db s) (tu_id u) (Date_now w)
                                            (\<lambda>r. r\<lparr>github_repo := Some stored\<rparr>)\<rparr>)
                                 chat (tu_id u) Reply_repo_saved)
                     | set_combine_time \<Rightarrow>
                         (let minutes = Number_of w txt
                          in if \<not> Number_isInteger minutes \<or> le_zero minutes
                             then reply_and_return w s chat Reply_positive_integer_warning
                             else if \<not> int4 (integer_of minutes) then (Some DatabaseError, s, [])
                             else
                              reply_and_delete w
                                (s\<lparr>db := update_settings (db s) (tu_id u) (Date_now w)
                                           (\<lambda>r. r\<lparr>combine_threshold_minutes := integer_of minutes\<rparr>)\<rparr>)
                                chat (tu_id u) (Reply_combine_updated (integer_of minutes)))
                     | edit_post postId \<Rightarrow>
                         if \<not> int4 postId then (Some DatabaseError, s, [])
                         else
                          reply_and_delete w
                            (s\<lparr>db := (db s)\<lparr>blog_posts :=
                                       map (\<lambda>p. if bp_id p = postId \<and> bp_user_id p = tu_id u
                                                then p\<lparr>bp_content := txt\<rparr> else p)
                                         (blog_posts (db s))\<rparr>\<rparr>)
                            chat (tu_id u) Reply_post_updated))))"

section \<open>Predicates and example data for the properties\<close>

fun is_notion_call :: "event \<Rightarrow> bool" where
  "is_notion_call (NotionCreate a b c m) = True"
| "is_notion_call _ = False"

text \<open>The rows \<open>publishPost\<close> selects: the drafts with that id that the user owns.\<close>

definition owned_posts :: "database \<Rightarrow> int \<Rightarrow> int \<Rightarrow> BlogPostRow list" where
  "owned_posts d postId userId =
     filter (\<lambda>p. bp_id p = postId \<and> bp_user_id p = userId) (blog_posts d)"

text \<open>
  The examples read the clock at one instant, 2023-11-14 22:13:20 UTC, and stamp their
  messages with it; \<open>toISOString\<close> is given at that instant. \<open>JSON.parse\<close> and \<open>Number\<close> are
  given on the texts the examples use. Replies are delivered, queue rows of equal timestamp
  come by id and owners by their number.
\<close>

definition example_toISOString :: "int \<Rightarrow> string" where
  "example_toISOString t = (if t = 1700000000000 then ''2023-11-14T22:13:20.000Z'' else [])"

definition example_JSON_parse :: "string \<Rightarrow> json option" where
  \<open>example_JSON_parse s =
     (if s = ''{"isInformational": true}'' then Some (JObject [(''isInformational'', JBool True)])
      else if s = ''{"isInformational": false}'' then Some (JObject [(''isInformational'', JBool False)])
      else None)\<close>

definition example_Number :: "string \<Rightarrow> jsnumber" where
  "example_Number s =
     (if s = ''10'' then Finite 10
      else if s = ''3000000000'' then Finite 3000000000
      else if s = [] then Finite 0
      else NaN)"

text \<open>A world in which every service answers, and the model finds every batch informational.\<close>

definition example_world :: world where
  \<open>example_world =
     \<lparr>OWNER_USER_ID = 100, Date_now = 1700000000000, toISOString = example_toISOString,
      Number_of = example_Number, JSON_parse = example_JSON_parse,
      generateContent = (\<lambda>prompt. Some ''Here you go: {"isInformational": true}''),
      notion_pages_create = (\<lambda>databaseId ti co mediaUrls. Some ''page-2''),
      createOrUpdateFileContents = (\<lambda>owner repoName ti co mediaUrls. Some (Some ''sha-1'')),
      telegram_sendMessage = (\<lambda>userId n. True),
      getFileLink = (\<lambda>fileId. None),
      ctx_reply = (\<lambda>chat r. True),
      tie_rank = pm_id,
      owner_rank = (\<lambda>userId. userId)\<rparr>\<close>

definition example_settings :: UserSettings where
  "example_settings =
     \<lparr>us_user_id = 100, auto_publish = False, combine_threshold_minutes = 5,
      notion_database_id = Some ''db-1'', github_repo = Some ''alice/wiki'',
      updated_at = Some 1699999000000\<rparr>"

text \<open>A draft of user 100 that Notion has already published and GitHub has not.\<close>

definition example_post :: BlogPostRow where
  "example_post =
     \<lparr>bp_id = 1, bp_user_id = 100, bp_title = ''Release'', bp_content = ''Notes'',
      bp_media_urls = Some [], bp_source_messages = [1], bp_notion_page_id = Some ''page-1'',
      bp_github_commit_sha = None, bp_status = Pending, bp_created_at = 1700000000000,
      bp_published_at = None\<rparr>"

definition example_db :: database where
  "example_db =
     \<lparr>users = [\<lparr>u_user_id = 100, u_username = Some ''alice'', u_is_authorized = True,
                u_created_at = 1699999000000\<rparr>],
      user_settings = [example_settings], monitored_sources = [], pending_messages = [],
      blog_posts = [example_post], monitored_sources_seq = 0, pending_messages_seq = 1,
      blog_posts_seq = 1\<rparr>"

text \<open>The loop over these owners ends without an exception.\<close>

fun runs_through :: "world \<Rightarrow> database \<Rightarrow> int list \<Rightarrow> bool" where
  "runs_through w d [] = True"
| "runs_through w d (u # us) =
     (case processUser w d u of
        (Some e, d1, ev) \<Rightarrow> False
      | (None, d1, ev) \<Rightarrow> runs_through w d1 us)"

definition example_source :: MonitoredSource where
  "example_source =
     \<lparr>ms_id = 1, ms_user_id = 100, ms_chat_id = - 1001, ms_chat_title = Some ''News'',
      ms_chat_type = ''channel'', ms_topic_id = None, ms_is_active = True,
      ms_created_at = 1699999000000\<rparr>"

text \<open>An unprocessed queue row: its id, its source, its timestamp and its text.\<close>

definition queued_row :: "int \<Rightarrow> int \<Rightarrow> int \<Rightarrow> string \<Rightarrow> PendingMessageRow" where
  "queued_row i sourceId ts txt =
     \<lparr>pm_id = i, pm_source_id = sourceId, pm_message_id = i, pm_text = Some txt,
      pm_media_urls = Some [], pm_sender = Some ''@bob'', pm_timestamp = ts,
      pm_is_processed = False\<rparr>"

text \<open>
  User 100 with a window of five minutes and three unprocessed rows, one, six and ten
  minutes before \<open>now\<close>.
\<close>

definition window_db :: "int \<Rightarrow> database" where
  "window_db now =
     \<lparr>users = [\<lparr>u_user_id = 100, u_username = Some ''alice'', u_is_authorized = True,
                u_created_at = 1699999000000\<rparr>],
      user_settings = [example_settings], monitored_sources = [example_source],
      pending_messages = [queued_row 1 1 (now - 60000) ''one'', queued_row 2 1 (now - 360000) ''two'',
                          queued_row 3 1 (now - 600000) ''three''],
      blog_posts = [], monitored_sources_seq = 1, pending_messages_seq = 3, blog_posts_seq = 0\<rparr>"

text \<open>User 100 with one unprocessed row, stamped at the instant of the examples.\<close>

definition example_queue_db :: database where
  "example_queue_db =
     \<lparr>users = [\<lparr>u_user_id = 100, u_username = Some ''alice'', u_is_authorized = True,
                u_created_at = 1699999000000\<rparr>],
      user_settings = [example_settings],
      monitored_sources = [example_source],
      pending_messages = [queued_row 1 1 1700000000000 ''one''],
      blog_posts = [], monitored_sources_seq = 1, pending_messages_seq = 1, blog_posts_seq = 0\<rparr>"

text \<open>The same after \<open>/unsubscribe 1\<close>: the source is deactivated, its row still queued.\<close>

definition unsubscribed_db :: database where
  "unsubscribed_db =
     example_queue_db\<lparr>monitored_sources := [example_source\<lparr>ms_is_active := False\<rparr>]\<rparr>"

text \<open>Two owners, 100 and 200, each with one source and one unprocessed row.\<close>

definition two_owner_db :: database where
  "two_owner_db =
     \<lparr>users = [\<lparr>u_user_id = 100, u_username = Some ''alice'', u_is_authorized = True,
                u_created_at = 1699999000000\<rparr>,
               \<lparr>u_user_id = 200, u_username = Some ''carol'', u_is_authorized = True,
                u_created_at = 1699999000000\<rparr>],
      user_settings = [example_settings, example_settings\<lparr>us_user_id := 200\<rparr>],
      monitored_sources = [example_source, example_source\<lparr>ms_id := 2, ms_user_id := 200\<rparr>],
      pending_messages = [queued_row 1 1 1700000000000 ''one'', queued_row 2 2 1700000000000 ''two''],
      blog_posts = [], monitored_sources_seq = 2, pending_messages_seq = 2, blog_posts_seq = 0\<rparr>"

text \<open>
  A world whose model answers the batch of user 100 without any JSON, and every other
  batch with a verdict "not informational".
\<close>

definition picky_world :: world where
  \<open>picky_world =
     example_world\<lparr>generateContent :=
       (\<lambda>prompt. if prompt = buildPrompt example_world [queued_row 1 1 1700000000000 ''one'']
                 then Some ''I cannot help with that.''
                 else Some ''{"isInformational": false}'')\<rparr>\<close>

text \<open>
  The same with the roles exchanged: the database returns the owners of a tick in
  descending order, and the model answers the batch of user 200 without any JSON.
\<close>

definition contrary_world :: world where
  \<open>contrary_world =
     example_world\<lparr>generateContent :=
       (\<lambda>prompt. if prompt = buildPrompt example_world [queued_row 2 2 1700000000000 ''two'']
                 then Some ''I cannot help with that.''
                 else Some ''{"isInformational": false}''),
       owner_rank := (\<lambda>userId. - userId)\<rparr>\<close>

text \<open>
  A world whose model gives a number as the title, one whose model gives a combined
  content, and one whose model gives a title of 501 characters.
\<close>

definition numeric_title_world :: world where
  \<open>numeric_title_world =
     example_world\<lparr>generateContent :=
       (\<lambda>prompt. Some ''{"isInformational": true, "suggestedTitle": 5}''),
       JSON_parse :=
       (\<lambda>s. if s = ''{"isInformational": true, "suggestedTitle": 5}''
            then Some (JObject [(''isInformational'', JBool True), (''suggestedTitle'', JNumber 5)])
            else None)\<rparr>\<close>







text \<open>A world in which no reply is delivered.\<close>

definition silent_world :: world where
  "silent_world = example_world\<lparr>ctx_reply := (\<lambda>chat r. False)\<rparr>"

text \<open>
  A text field of the parsed object that \<open>analyzeMessages\<close> can trim: absent, null or a
  string.
\<close>

definition text_field_ok :: "(string \<times> json) list \<Rightarrow> string \<Rightarrow> bool" where
  "text_field_ok kvs k =
     (case map_of (rev kvs) k of
        None \<Rightarrow> True
      | Some JNull \<Rightarrow> True
      | Some (JString s) \<Rightarrow> True
      | Some _ \<Rightarrow> False)"

text \<open>The natural key of a queue row: \<open>UNIQUE (source_id, message_id)\<close>.\<close>

definition queue_key :: "PendingMessageRow \<Rightarrow> int \<times> int" where
  "queue_key r = (pm_source_id r, pm_message_id r)"

text \<open>A channel post with a text and no attachment.\<close>

definition example_message :: TgMessage where
  "example_message =
     \<lparr>m_message_id = 55, m_date = Some 1700000000, m_text = Some ''hello'', m_caption = None,
      m_author_signature = None, m_sender_chat_title = Some ''News'', m_from = None,
      m_message_thread_id = None, m_photo = None, m_document = None, m_video = None,
      m_animation = None, m_audio = None\<rparr>"

definition example_bot :: bot where
  "example_bot = \<lparr>db = example_db, userStates = Map.empty\<rparr>"

text \<open>A text that user 100 sends in the private chat.\<close>

definition private_text :: "string \<Rightarrow> TgMessage" where
  "private_text txt =
     \<lparr>m_message_id = 70, m_date = Some 1700000000, m_text = Some txt, m_caption = None,
      m_author_signature = None, m_sender_chat_title = None,
      m_from = Some \<lparr>tu_id = 100, tu_username = Some ''alice'', tu_first_name = ''Alice'',
                     tu_last_name = None\<rparr>,
      m_message_thread_id = None, m_photo = None, m_document = None, m_video = None,
      m_animation = None, m_audio = None\<rparr>"

text \<open>The bot while it waits for the next text of user 100.\<close>

definition waiting_bot :: "UserState \<Rightarrow> bot" where
  "waiting_bot st = \<lparr>db = example_db, userStates = [100 \<mapsto> st]\<rparr>"

section \<open>Properties of the publish orchestrator\<close>

lemma filter_map_keys:
  assumes "\<And>x. P (k x) = P x"
  shows "filter P (map k xs) = map k (filter P xs)"
  using assms by (induction xs) auto

lemma publishSinks_cong:
  "bp_title p = bp_title q \<Longrightarrow> bp_content p = bp_content q \<Longrightarrow> bp_media_urls p = bp_media_urls q
   \<Longrightarrow> publishSinks w s p = publishSinks w s q"
  unfolding publishSinks_def by (simp only:)

lemma getUserSettings_posts [simp]:
  "getUserSettings (d\<lparr>blog_posts := b\<rparr>) u = getUserSettings d u"
  by (simp add: getUserSettings_def)

lemma getUserSettings_status [simp]:
  "getUserSettings (set_post_status d st i) u = getUserSettings d u"
  by (simp add: set_post_status_def)

lemma publishPost_events:
  "snd (publishPost w d postId userId) =
     (case filter (\<lambda>p. bp_id p = postId \<and> bp_user_id p = userId) (blog_posts d) of
        [] \<Rightarrow> []
      | post # _ \<Rightarrow>
         (case publishSinks w (getUserSettings d userId) post of
            (Inl e, ev) \<Rightarrow> ev
          | (Inr (n, g), ev) \<Rightarrow>
              ev @ [SendMessage userId (PublishedNotice (bp_title post) (truthy n) (truthy g))]))"
proof -
  let ?P = "\<lambda>p. bp_id p = postId \<and> bp_user_id p = userId"
  let ?h = "\<lambda>p. if bp_id p = postId then p\<lparr>bp_status := Publishing\<rparr> else p"
  have f: "filter ?P (blog_posts (set_post_status d Publishing postId)) =
           map ?h (filter ?P (blog_posts d))"
    unfolding set_post_status_def by (simp add: filter_map_keys)
  show ?thesis
  proof (cases "filter ?P (blog_posts d)")
    case Nil
    then show ?thesis using f by (simp add: publishPost_def)
  next
    case (Cons p ps)
    have c: "publishSinks w (getUserSettings d userId) (?h p) =
             publishSinks w (getUserSettings d userId) p"
      by (rule publishSinks_cong) auto
    show ?thesis using f Cons c
      by (auto simp add: publishPost_def Let_def split: prod.splits sum.splits)
  qed
qed

lemma publishPost_events_ids:
  "snd (publishPost w
          (d\<lparr>blog_posts := map (\<lambda>p. p\<lparr>bp_notion_page_id := f p, bp_github_commit_sha := g p\<rparr>)
                              (blog_posts d)\<rparr>) postId userId) =
   snd (publishPost w d postId userId)"
proof -
  let ?P = "\<lambda>p. bp_id p = postId \<and> bp_user_id p = userId"
  let ?k = "\<lambda>p. p\<lparr>bp_notion_page_id := f p, bp_github_commit_sha := g p\<rparr>"
  have fm: "filter ?P (map ?k (blog_posts d)) = map ?k (filter ?P (blog_posts d))"
    by (simp add: filter_map_keys)
  show ?thesis
  proof (cases "filter ?P (blog_posts d)")
    case Nil
    then show ?thesis using fm by (simp add: publishPost_events)
  next
    case (Cons p ps)
    have c: "publishSinks w (getUserSettings d userId) (?k p) =
             publishSinks w (getUserSettings d userId) p"
      by (rule publishSinks_cong) auto
    show ?thesis using fm Cons c
      by (simp add: publishPost_events split: prod.splits sum.splits)
  qed
qed

lemma notion_called_iff:
  "list_ex is_notion_call (snd (publishPost w d postId userId)) =
     (owned_posts d postId userId \<noteq> [] \<and> truthy (notion_database_id (getUserSettings d userId)))"
  unfolding publishPost_events owned_posts_def
  by (auto simp add: publishSinks_def publishToNotion_def publishToGitHub_def truthy_def Let_def
      split: list.splits option.splits prod.splits sum.splits if_splits)

text \<open>
  C1, as the code has it. Publish is not idempotent per sink: the sink calls of
  \<open>publishPost\<close> are the same whatever ids the drafts record, and whenever the user owns
  the draft Notion is called exactly when the user's settings name a Notion database, also
  for a draft that already records a Notion page id.
\<close>

theorem publishPost_sinks_ignore_recorded_ids:
  "snd (publishPost w
          (d\<lparr>blog_posts := map (\<lambda>p. p\<lparr>bp_notion_page_id := f p, bp_github_commit_sha := g p\<rparr>)
                              (blog_posts d)\<rparr>) postId userId) =
   snd (publishPost w d postId userId) \<and>
   list_ex is_notion_call (snd (publishPost w d postId userId)) =
     (owned_posts d postId userId \<noteq> [] \<and> truthy (notion_database_id (getUserSettings d userId)))"
  using publishPost_events_ids notion_called_iff by blast

text \<open>
  C1 fails as stated: approving the example draft, whose Notion page id is recorded and
  whose GitHub commit is not, calls Notion again before GitHub and replaces the recorded
  page id.
\<close>

theorem publishPost_republishes_to_notion:
  "publishPost example_world example_db 1 100 =
     (example_db\<lparr>blog_posts :=
        [example_post\<lparr>bp_notion_page_id := Some ''page-2'', bp_github_commit_sha := Some ''sha-1'',
                      bp_status := Published, bp_published_at := Some 1700000000000\<rparr>]\<rparr>,
      [NotionCreate ''db-1'' ''Release'' ''Notes'' [],
       GitHubCreate ''alice'' ''wiki'' ''Release'' ''Notes'' [],
       SendMessage 100 (PublishedNotice ''Release'' True True)])"
  by (simp add: publishPost_def example_world_def example_db_def example_post_def
      example_settings_def set_post_status_def getUserSettings_def publishSinks_def
      publishToNotion_def publishToGitHub_def mark_published_def truthy_def)

lemma publishPost_no_owned_draft:
  assumes "owned_posts d postId userId = []"
  shows "publishPost w d postId userId = (set_post_status d Publishing postId, [])"
proof -
  let ?P = "\<lambda>p. bp_id p = postId \<and> bp_user_id p = userId"
  let ?h = "\<lambda>p. if bp_id p = postId then p\<lparr>bp_status := Publishing\<rparr> else p"
  have "filter ?P (blog_posts (set_post_status d Publishing postId)) =
        map ?h (filter ?P (blog_posts d))"
    unfolding set_post_status_def by (simp add: filter_map_keys)
  then show ?thesis using assms by (simp add: publishPost_def owned_posts_def)
qed

text \<open>
  C4 at a failing input. User 200 owns no draft with id 1, and \<open>publishPost 1 200\<close>, which
  the callback \<open>publish_1\<close> pressed by user 200 runs, makes no sink call; but the draft
  with id 1 of user 100 is left with status \<open>Publishing\<close> instead of \<open>Pending\<close>: the
  status is written before the ownership test (\<open>publishPost_no_owned_draft\<close>).
\<close>

theorem publishPost_foreign_draft_status:
  "owned_posts example_db 1 200 = [] \<and>
   bp_status example_post = Pending \<and>
   publishPost example_world example_db 1 200 =
     (example_db\<lparr>blog_posts := [example_post\<lparr>bp_status := Publishing\<rparr>]\<rparr>, []) \<and>
   action_publish example_world example_bot 200 1 =
     (example_bot\<lparr>db := example_db\<lparr>blog_posts := [example_post\<lparr>bp_status := Publishing\<rparr>]\<rparr>\<rparr>,
      [AnswerCb_publishing, DeleteMessage], [])"
  by (simp add: action_publish_def example_bot_def publishPost_def example_db_def example_post_def
      set_post_status_def owned_posts_def)

section \<open>Properties of the batcher\<close>

lemma fetch_set:
  "set (fetchUnprocessed w d userId) =
     {pm \<in> set (pending_messages d). pm_is_processed pm = False \<and>
        (\<exists>ms \<in> set (monitored_sources d). ms_id ms = pm_source_id pm \<and> ms_user_id ms = userId)}"
  by (auto simp add: fetchUnprocessed_def)

lemma sorted_first_key:
  fixes f :: "'a \<Rightarrow> int" and g :: "'a \<Rightarrow> int"
  shows "sorted (map (\<lambda>x. (f x, g x)) xs) \<Longrightarrow> sorted (map f xs)"
  by (induction xs) (auto simp add: less_eq_prod_def)

lemma fetch_sorted: "sorted (map pm_timestamp (fetchUnprocessed w d userId))"
  unfolding fetchUnprocessed_def by (rule sorted_first_key) (rule sorted_sort_key)

lemma fetch_active_indep:
  "fetchUnprocessed w
     (d\<lparr>monitored_sources := map (\<lambda>ms. ms\<lparr>ms_is_active := a ms\<rparr>) (monitored_sources d)\<rparr>) userId =
   fetchUnprocessed w d userId"
  by (simp add: fetchUnprocessed_def comp_def cong: if_cong)

text \<open>
  C3, as the code has it. The rows fetched for an owner are the unprocessed rows whose
  source belongs to that owner, whether the source is active or not (the query never reads
  \<open>is_active\<close>), ordered by timestamp ascending.
\<close>

theorem fetchUnprocessed_owner_rows_sorted:
  "set (fetchUnprocessed w d userId) =
     {pm \<in> set (pending_messages d). pm_is_processed pm = False \<and>
        (\<exists>ms \<in> set (monitored_sources d). ms_id ms = pm_source_id pm \<and> ms_user_id ms = userId)} \<and>
   sorted (map pm_timestamp (fetchUnprocessed w d userId)) \<and>
   fetchUnprocessed w
     (d\<lparr>monitored_sources := map (\<lambda>ms. ms\<lparr>ms_is_active := a ms\<rparr>) (monitored_sources d)\<rparr>) userId =
   fetchUnprocessed w d userId"
  using fetch_set fetch_sorted fetch_active_indep by blast

text \<open>
  C3 fails as stated: the row queued for a source that has since been deactivated is
  fetched.
\<close>

theorem fetchUnprocessed_deactivated_source:
  "fetchUnprocessed example_world unsubscribed_db 100 = [queued_row 1 1 1700000000000 ''one''] \<and>
   map ms_is_active (monitored_sources unsubscribed_db) = [False]"
  by (simp add: fetchUnprocessed_def unsubscribed_db_def example_queue_db_def example_source_def
      queued_row_def)

lemma window_fetch:
  "fetchUnprocessed w (window_db now) 100 =
     [queued_row 3 1 (now - 600000) ''three'', queued_row 2 1 (now - 360000) ''two'',
      queued_row 1 1 (now - 60000) ''one'']"
  by (simp add: fetchUnprocessed_def window_db_def example_source_def queued_row_def)

lemma window_recent:
  "recentMessages w (getUserSettings (window_db (Date_now w)) 100)
     (fetchUnprocessed w (window_db (Date_now w)) 100) =
   [queued_row 1 1 (Date_now w - 60000) ''one'']"
  unfolding window_fetch
  by (simp add: recentMessages_def getUserSettings_def window_db_def example_settings_def
      queued_row_def)

lemma recent_set:
  "set (recentMessages w settings rows) =
     {m \<in> set rows. Date_now w - combine_threshold_minutes settings * 60000 \<le> pm_timestamp m}"
  by (auto simp add: recentMessages_def)

lemma analyzeMessages_events: "snd (analyzeMessages w batch) = [ModelCall (buildPrompt w batch)]"
  by (simp add: analyzeMessages_def Let_def)

lemma processUser_first_event:
  assumes "recentMessages w (getUserSettings d u) (fetchUnprocessed w d u) = batch" "batch \<noteq> []"
  shows "take 1 (snd (snd (processUser w d u))) = [ModelCall (buildPrompt w batch)]"
proof -
  have ne: "fetchUnprocessed w d u \<noteq> []" using assms by (auto simp add: recentMessages_def)
  obtain r where r: "analyzeMessages w batch = (r, [ModelCall (buildPrompt w batch)])"
    by (simp add: analyzeMessages_def Let_def)
  show ?thesis using assms ne r
    by (auto simp add: processUser_def Let_def split: sum.splits prod.splits option.splits)
qed

text \<open>
  C8. The window filter keeps exactly the rows whose timestamp is at least the clock minus
  the owner's window. With a window of five minutes and unprocessed rows one, six and ten
  minutes old, all three are fetched, only the first is kept, and the classifier is called
  on the prompt of that one row.
\<close>

theorem window_filter_keeps_recent_rows:
  "set (recentMessages w settings rows) =
     {m \<in> set rows. Date_now w - combine_threshold_minutes settings * 60000 \<le> pm_timestamp m} \<and>
   fetchUnprocessed w (window_db (Date_now w)) 100 =
     [queued_row 3 1 (Date_now w - 600000) ''three'', queued_row 2 1 (Date_now w - 360000) ''two'',
      queued_row 1 1 (Date_now w - 60000) ''one''] \<and>
   recentMessages w (getUserSettings (window_db (Date_now w)) 100)
     (fetchUnprocessed w (window_db (Date_now w)) 100) =
     [queued_row 1 1 (Date_now w - 60000) ''one''] \<and>
   take 1 (snd (snd (processUser w (window_db (Date_now w)) 100))) =
     [ModelCall (buildPrompt w [queued_row 1 1 (Date_now w - 60000) ''one''])]"
  using recent_set window_fetch window_recent processUser_first_event [OF window_recent]
  by simp

lemma map_content_upd:
  assumes "\<And>p. bp_content (k p) = bp_content p"
  shows "map bp_content (map k xs) = map bp_content xs"
  using assms by (induction xs) auto

lemma content_set_post_status [simp]:
  "map bp_content (blog_posts (set_post_status d st i)) = map bp_content (blog_posts d)"
  by (simp add: set_post_status_def map_content_upd)

lemma content_mark_published [simp]:
  "map bp_content (blog_posts (mark_published d n g now i)) = map bp_content (blog_posts d)"
  by (simp add: mark_published_def map_content_upd)


lemma posts_mark_processed [simp]: "blog_posts (mark_processed d ids) = blog_posts d"
  by (simp add: mark_processed_def)








lemma jsonMatch_here_you_go:
  \<open>jsonMatch ''Here you go: {"isInformational": true}'' = Some ''{"isInformational": true}''\<close>
  by (simp add: jsonMatch_def)

lemma jsonMatch_refusal: \<open>jsonMatch ''I cannot help with that.'' = None\<close>
  by (simp add: jsonMatch_def)

lemma jsonMatch_verdict:
  \<open>jsonMatch ''{"isInformational": false}'' = Some ''{"isInformational": false}''\<close>
  by (simp add: jsonMatch_def)






















lemma processLoop_append:
  "runs_through w d us1 \<Longrightarrow>
   processLoop w d (us1 @ us2) =
     (case processLoop w d us1 of (d1, ev1) \<Rightarrow>
        (case processLoop w d1 us2 of (d2, ev2) \<Rightarrow> (d2, ev1 @ ev2)))"
proof (induction us1 arbitrary: d)
  case Nil
  then show ?case by (simp split: prod.splits)
next
  case (Cons u us1)
  then show ?case
    by (auto split: prod.splits option.splits)
qed

lemma processUser_classification_fails:
  assumes "recentMessages w (getUserSettings d u) (fetchUnprocessed w d u) = batch"
    and "batch \<noteq> []"
    and "fst (analyzeMessages w batch) = Inl e"
  shows "processUser w d u = (Some e, d, [ModelCall (buildPrompt w batch)])"
proof -
  have ne: "fetchUnprocessed w d u \<noteq> []" using assms(1,2) by (auto simp add: recentMessages_def)
  have an: "analyzeMessages w batch = (Inl e, [ModelCall (buildPrompt w batch)])"
    using assms(3) analyzeMessages_events[of w batch] by (cases "analyzeMessages w batch") auto
  show ?thesis using assms(1,2) ne an
    by (simp add: processUser_def Let_def)
qed

lemma processUser_not_informational:
  assumes "recentMessages w (getUserSettings d u) (fetchUnprocessed w d u) = batch"
    and "batch \<noteq> []"
    and "fst (analyzeMessages w batch) = Inr a"
    and "\<not> isInformational a"
  shows "processUser w d u =
           (None, mark_processed d (map pm_id batch), [ModelCall (buildPrompt w batch)])"
proof -
  have ne: "fetchUnprocessed w d u \<noteq> []" using assms(1,2) by (auto simp add: recentMessages_def)
  have an: "analyzeMessages w batch = (Inr a, [ModelCall (buildPrompt w batch)])"
    using assms(3) analyzeMessages_events[of w batch] by (cases "analyzeMessages w batch") auto
  show ?thesis using assms(1,2,4) ne an
    by (simp add: processUser_def Let_def)
qed

text \<open>
  C2, as the code has it. A classification failure in one owner's iteration ends the whole
  tick: when the owners enumerated before (\<open>us1\<close>) ran through and left the database
  \<open>d1\<close>, and the classification of the batch of owner \<open>u\<close> fails, the tick over
  \<open>us1 @ u # us2\<close> ends with the database \<open>d1\<close>. The rows of the failing owner stay
  unprocessed, and so does everything of the owners enumerated after it (\<open>us2\<close>).
\<close>

theorem classification_failure_ends_tick:
  assumes "runs_through w d us1"
    and "processLoop w d us1 = (d1, ev1)"
    and "recentMessages w (getUserSettings d1 u) (fetchUnprocessed w d1 u) = batch"
    and "batch \<noteq> []"
    and "fst (analyzeMessages w batch) = Inl e"
  shows "processLoop w d (us1 @ u # us2) = (d1, ev1 @ [ModelCall (buildPrompt w batch)])"
  using assms processUser_classification_fails[OF assms(3,4,5)]
  by (simp add: processLoop_append)

lemma buildPrompt_single:
  "buildPrompt w [m] = prompt_head @ messageText w 0 m @ prompt_tail"
  by (simp add: buildPrompt_def)

lemma prompts_differ:
  "buildPrompt example_world [queued_row 2 2 1700000000000 ''two''] \<noteq>
   buildPrompt example_world [queued_row 1 1 1700000000000 ''one'']"
  by (simp add: buildPrompt_single messageText_def queued_row_def or_unknown_def or_empty_def)

lemma picky_fields:
  "Date_now picky_world = 1700000000000"
  "Date_now contrary_world = 1700000000000"
  "toISOString picky_world = toISOString example_world"
  "toISOString contrary_world = toISOString example_world"
  "JSON_parse picky_world = example_JSON_parse"
  "JSON_parse contrary_world = example_JSON_parse"
  "owner_rank picky_world = (\<lambda>userId. userId)"
  "owner_rank contrary_world = (\<lambda>userId. - userId)"
  by (simp_all add: picky_world_def contrary_world_def example_world_def)

lemma buildPrompt_iso:
  "toISOString w' = toISOString w \<Longrightarrow> buildPrompt w' ms = buildPrompt w ms"
  by (simp add: buildPrompt_def messageText_def)

lemma picky_prompt: "buildPrompt picky_world ms = buildPrompt example_world ms"
  by (rule buildPrompt_iso) (rule picky_fields)

lemma contrary_prompt: "buildPrompt contrary_world ms = buildPrompt example_world ms"
  by (rule buildPrompt_iso) (rule picky_fields)

lemma picky_gen:
  \<open>generateContent picky_world prompt =
     (if prompt = buildPrompt example_world [queued_row 1 1 1700000000000 ''one'']
      then Some ''I cannot help with that.'' else Some ''{"isInformational": false}'')\<close>
  by (simp add: picky_world_def)

lemma contrary_gen:
  \<open>generateContent contrary_world prompt =
     (if prompt = buildPrompt example_world [queued_row 2 2 1700000000000 ''two'']
      then Some ''I cannot help with that.'' else Some ''{"isInformational": false}'')\<close>
  by (simp add: contrary_world_def)

lemma refusal_fails:
  assumes "generateContent w (buildPrompt w batch) = Some ''I cannot help with that.''"
  shows "fst (analyzeMessages w batch) = Inl AiResponseNotJson"
  using assms by (simp add: analyzeMessages_def Let_def parseResponse_def jsonMatch_refusal)

lemma verdict_not_informational:
  assumes \<open>generateContent w (buildPrompt w batch) = Some ''{"isInformational": false}''\<close>
    and "JSON_parse w = example_JSON_parse"
  shows "fst (analyzeMessages w batch) =
     Inr \<lparr>shouldCombine = False, isInformational = False, suggestedTitle = [], combinedContent = []\<rparr>"
  using assms
  by (simp add: analyzeMessages_def Let_def parseResponse_def jsonMatch_verdict
      example_JSON_parse_def readAnalysis_def)

lemma two_batch_100:
  assumes "Date_now w = 1700000000000"
    and "user_settings d = user_settings two_owner_db"
    and "monitored_sources d = monitored_sources two_owner_db"
    and "pending_messages d = [queued_row 1 1 1700000000000 ''one'', r]"
    and "pm_source_id r = 2"
  shows "recentMessages w (getUserSettings d 100) (fetchUnprocessed w d 100) =
         [queued_row 1 1 1700000000000 ''one'']"
  using assms
  by (simp add: recentMessages_def getUserSettings_def fetchUnprocessed_def two_owner_db_def
      example_settings_def example_source_def queued_row_def)

lemma two_batch_200:
  assumes "Date_now w = 1700000000000"
    and "user_settings d = user_settings two_owner_db"
    and "monitored_sources d = monitored_sources two_owner_db"
    and "pending_messages d = [r, queued_row 2 2 1700000000000 ''two'']"
    and "pm_source_id r = 1"
  shows "recentMessages w (getUserSettings d 200) (fetchUnprocessed w d 200) =
         [queued_row 2 2 1700000000000 ''two'']"
  using assms
  by (simp add: recentMessages_def getUserSettings_def fetchUnprocessed_def two_owner_db_def
      example_settings_def example_source_def queued_row_def)

lemma two_owner_rows:
  "pending_messages two_owner_db =
     [queued_row 1 1 1700000000000 ''one'', queued_row 2 2 1700000000000 ''two'']"
  "pm_source_id (queued_row i sourceId ts txt) = sourceId"
  "pm_id (queued_row i sourceId ts txt) = i"
  by (simp_all add: two_owner_db_def queued_row_def)

lemma picky_100:
  "fst (analyzeMessages picky_world [queued_row 1 1 1700000000000 ''one'']) = Inl AiResponseNotJson"
  by (rule refusal_fails) (simp add: picky_gen picky_prompt)

lemma picky_200:
  "fst (analyzeMessages picky_world [queued_row 2 2 1700000000000 ''two'']) =
     Inr \<lparr>shouldCombine = False, isInformational = False, suggestedTitle = [], combinedContent = []\<rparr>"
  by (rule verdict_not_informational) (simp_all add: picky_gen picky_prompt prompts_differ picky_fields)

lemma contrary_200:
  "fst (analyzeMessages contrary_world [queued_row 2 2 1700000000000 ''two'']) = Inl AiResponseNotJson"
  by (rule refusal_fails) (simp add: contrary_gen contrary_prompt)

lemma contrary_100:
  "fst (analyzeMessages contrary_world [queued_row 1 1 1700000000000 ''one'']) =
     Inr \<lparr>shouldCombine = False, isInformational = False, suggestedTitle = [], combinedContent = []\<rparr>"
  using prompts_differ
  by (intro verdict_not_informational) (auto simp add: contrary_gen contrary_prompt picky_fields)

lemma picky_user_200:
  "processUser picky_world two_owner_db 200 =
     (None, mark_processed two_owner_db [2],
      [ModelCall (buildPrompt example_world [queued_row 2 2 1700000000000 ''two''])])"
proof -
  have b: "recentMessages picky_world (getUserSettings two_owner_db 200)
             (fetchUnprocessed picky_world two_owner_db 200) =
           [queued_row 2 2 1700000000000 ''two'']"
    by (rule two_batch_200[where r = "queued_row 1 1 1700000000000 ''one''"])
       (simp_all add: two_owner_rows picky_fields)
  show ?thesis
    using processUser_not_informational[OF b _ picky_200]
    by (simp add: two_owner_rows picky_prompt)
qed

lemma contrary_user_100:
  "processUser contrary_world two_owner_db 100 =
     (None, mark_processed two_owner_db [1],
      [ModelCall (buildPrompt example_world [queued_row 1 1 1700000000000 ''one''])])"
proof -
  have b: "recentMessages contrary_world (getUserSettings two_owner_db 100)
             (fetchUnprocessed contrary_world two_owner_db 100) =
           [queued_row 1 1 1700000000000 ''one'']"
    by (rule two_batch_100[where r = "queued_row 2 2 1700000000000 ''two''"])
       (simp_all add: two_owner_rows picky_fields)
  show ?thesis
    using processUser_not_informational[OF b _ contrary_100]
    by (simp add: two_owner_rows contrary_prompt)
qed

theorem classification_failure_ends_tick_witness:
  "runs_through picky_world two_owner_db [200] \<and>
   processLoop picky_world two_owner_db [200] =
     (mark_processed two_owner_db [2],
      [ModelCall (buildPrompt example_world [queued_row 2 2 1700000000000 ''two''])]) \<and>
   recentMessages picky_world (getUserSettings (mark_processed two_owner_db [2]) 100)
       (fetchUnprocessed picky_world (mark_processed two_owner_db [2]) 100) =
     [queued_row 1 1 1700000000000 ''one''] \<and>
   fst (analyzeMessages picky_world [queued_row 1 1 1700000000000 ''one'']) = Inl AiResponseNotJson \<and>
   processLoop picky_world two_owner_db ([200] @ 100 # [300]) =
     (mark_processed two_owner_db [2],
      [ModelCall (buildPrompt example_world [queued_row 2 2 1700000000000 ''two'']),
       ModelCall (buildPrompt example_world [queued_row 1 1 1700000000000 ''one''])])"
proof -
  have r: "runs_through picky_world two_owner_db [200]" by (simp add: picky_user_200)
  have l: "processLoop picky_world two_owner_db [200] =
     (mark_processed two_owner_db [2],
      [ModelCall (buildPrompt example_world [queued_row 2 2 1700000000000 ''two''])])"
    by (simp add: picky_user_200)
  have b: "recentMessages picky_world (getUserSettings (mark_processed two_owner_db [2]) 100)
       (fetchUnprocessed picky_world (mark_processed two_owner_db [2]) 100) =
     [queued_row 1 1 1700000000000 ''one'']"
    by (rule two_batch_100[where r = "(queued_row 2 2 1700000000000 ''two'')\<lparr>pm_is_processed := True\<rparr>"])
       (simp_all add: two_owner_db_def queued_row_def mark_processed_def picky_fields)
  show ?thesis
    using classification_failure_ends_tick [OF r l b _ picky_100, of "[300]"] r l b picky_100
    by (simp add: picky_prompt)
qed

text \<open>
  C2 fails as stated, whichever of the two owners the database returns first. When it
  returns 100 before 200 and the classification for owner 100 fails, the tick ends with
  the database unchanged: owner 200 is not processed in this tick, although its own
  iteration would classify its row and mark it processed. When it returns 200 before 100
  and the classification for owner 200 fails, the tick ends in the same way, and owner 100
  is the one not processed.
\<close>

theorem classification_failure_skips_later_owner:
  "distinct_owners picky_world two_owner_db = [100, 200] \<and>
   processMessages picky_world two_owner_db =
     (two_owner_db, [ModelCall (buildPrompt example_world [queued_row 1 1 1700000000000 ''one''])]) \<and>
   processUser picky_world two_owner_db 200 =
     (None, mark_processed two_owner_db [2],
      [ModelCall (buildPrompt example_world [queued_row 2 2 1700000000000 ''two''])]) \<and>
   distinct_owners contrary_world two_owner_db = [200, 100] \<and>
   processMessages contrary_world two_owner_db =
     (two_owner_db, [ModelCall (buildPrompt example_world [queued_row 2 2 1700000000000 ''two''])]) \<and>
   processUser contrary_world two_owner_db 100 =
     (None, mark_processed two_owner_db [1],
      [ModelCall (buildPrompt example_world [queued_row 1 1 1700000000000 ''one''])])"
proof -
  have b1: "recentMessages picky_world (getUserSettings two_owner_db 100)
             (fetchUnprocessed picky_world two_owner_db 100) =
           [queued_row 1 1 1700000000000 ''one'']"
    by (rule two_batch_100[where r = "queued_row 2 2 1700000000000 ''two''"])
       (simp_all add: two_owner_rows picky_fields)
  have u1: "processUser picky_world two_owner_db 100 =
      (Some AiResponseNotJson, two_owner_db,
       [ModelCall (buildPrompt picky_world [queued_row 1 1 1700000000000 ''one''])])"
    by (rule processUser_classification_fails[OF b1 _ picky_100]) simp
  have b2: "recentMessages contrary_world (getUserSettings two_owner_db 200)
             (fetchUnprocessed contrary_world two_owner_db 200) =
           [queued_row 2 2 1700000000000 ''two'']"
    by (rule two_batch_200[where r = "queued_row 1 1 1700000000000 ''one''"])
       (simp_all add: two_owner_rows picky_fields)
  have u2: "processUser contrary_world two_owner_db 200 =
      (Some AiResponseNotJson, two_owner_db,
       [ModelCall (buildPrompt contrary_world [queued_row 2 2 1700000000000 ''two''])])"
    by (rule processUser_classification_fails[OF b2 _ contrary_200]) simp
  have o1: "distinct_owners picky_world two_owner_db = [100, 200]"
    by (simp add: distinct_owners_def picky_fields two_owner_db_def example_settings_def)
  have o2: "distinct_owners contrary_world two_owner_db = [200, 100]"
    by (simp add: distinct_owners_def picky_fields two_owner_db_def example_settings_def)
  show ?thesis
    using u1 u2 o1 o2 picky_user_200 contrary_user_100
    by (simp add: processMessages_def picky_prompt contrary_prompt)
qed

section \<open>Properties of the classifier adapter\<close>

lemma trim_or_empty_ok:
  "text_field_ok kvs k \<Longrightarrow> \<exists>s. trim_or_empty (get_prop (JObject kvs) k) = Inr s"
  by (auto simp add: text_field_ok_def split: option.splits json.splits)

lemma trim_or_empty_not_ok:
  "\<not> text_field_ok kvs k \<Longrightarrow> trim_or_empty (get_prop (JObject kvs) k) = Inl TypeError"
  by (auto simp add: text_field_ok_def split: option.splits json.splits)

lemma map_of_rev_absent: "k \<notin> fst ` set kvs \<Longrightarrow> map_of (rev kvs) k = None"
  by (simp add: map_of_eq_None_iff)

lemma readAnalysis_object:
  assumes "text_field_ok kvs ''suggestedTitle''" "text_field_ok kvs ''combinedContent''"
  shows "\<exists>ti co. readAnalysis (JObject kvs) =
           Inr \<lparr>shouldCombine = js_Boolean (map_of (rev kvs) ''shouldCombine''),
                isInformational = js_Boolean (map_of (rev kvs) ''isInformational''),
                suggestedTitle = ti, combinedContent = co\<rparr>"
proof -
  obtain ti where t: "trim_or_empty (get_prop (JObject kvs) ''suggestedTitle'') = Inr ti"
    using trim_or_empty_ok[OF assms(1)] by blast
  obtain co where c: "trim_or_empty (get_prop (JObject kvs) ''combinedContent'') = Inr co"
    using trim_or_empty_ok[OF assms(2)] by blast
  show ?thesis using t c by (simp add: readAnalysis_def)
qed

lemma readAnalysis_type_error:
  assumes "\<not> (text_field_ok kvs ''suggestedTitle'' \<and> text_field_ok kvs ''combinedContent'')"
  shows "readAnalysis (JObject kvs) = Inl TypeError"
proof (cases "text_field_ok kvs ''suggestedTitle''")
  case True
  then obtain ti where t: "trim_or_empty (get_prop (JObject kvs) ''suggestedTitle'') = Inr ti"
    using trim_or_empty_ok by blast
  have "\<not> text_field_ok kvs ''combinedContent''" using assms True by simp
  then have "trim_or_empty (get_prop (JObject kvs) ''combinedContent'') = Inl TypeError"
    by (rule trim_or_empty_not_ok)
  then show ?thesis using t by (simp add: readAnalysis_def)
next
  case False
  then have "trim_or_empty (get_prop (JObject kvs) ''suggestedTitle'') = Inl TypeError"
    by (rule trim_or_empty_not_ok)
  then show ?thesis by (simp add: readAnalysis_def)
qed

text \<open>
  C5, as the code has it. When the model's text holds no opening brace with a closing brace
  after it, \<open>analyzeMessages\<close> fails with the error "AI response not in expected JSON
  format"; when the text from the first opening to the last closing brace is not JSON, it
  fails with the error of \<open>JSON.parse\<close>. When that text parses to an object, the outcome
  depends on the two text fields \<open>suggestedTitle\<close> and \<open>combinedContent\<close> alone. If each
  of them is absent, null or a string, \<open>analyzeMessages\<close> returns a result, also when
  \<open>shouldCombine\<close> or \<open>isInformational\<close> is missing: the missing field is read as false.
  If one of them is present with a value that is neither null nor a string, it fails with
  a \<open>TypeError\<close>, whatever the two boolean fields are.
\<close>

theorem analyzeMessages_format_errors:
  assumes "generateContent w (buildPrompt w batch) = Some responseText"
  shows "(jsonMatch responseText = None \<longrightarrow> fst (analyzeMessages w batch) = Inl AiResponseNotJson) \<and>
   (\<forall>m. jsonMatch responseText = Some m \<longrightarrow> JSON_parse w m = None \<longrightarrow>
      fst (analyzeMessages w batch) = Inl JsonSyntaxError) \<and>
   (\<forall>m kvs. jsonMatch responseText = Some m \<longrightarrow> JSON_parse w m = Some (JObject kvs) \<longrightarrow>
      text_field_ok kvs ''suggestedTitle'' \<longrightarrow> text_field_ok kvs ''combinedContent'' \<longrightarrow>
      (\<exists>a. fst (analyzeMessages w batch) = Inr a \<and>
           shouldCombine a = js_Boolean (map_of (rev kvs) ''shouldCombine'') \<and>
           isInformational a = js_Boolean (map_of (rev kvs) ''isInformational'') \<and>
           (''shouldCombine'' \<notin> fst ` set kvs \<longrightarrow> \<not> shouldCombine a) \<and>
           (''isInformational'' \<notin> fst ` set kvs \<longrightarrow> \<not> isInformational a))) \<and>
   (\<forall>m kvs. jsonMatch responseText = Some m \<longrightarrow> JSON_parse w m = Some (JObject kvs) \<longrightarrow>
      \<not> (text_field_ok kvs ''suggestedTitle'' \<and> text_field_ok kvs ''combinedContent'') \<longrightarrow>
      fst (analyzeMessages w batch) = Inl TypeError)"
proof (intro conjI allI impI)
  assume "jsonMatch responseText = None"
  then show "fst (analyzeMessages w batch) = Inl AiResponseNotJson"
    using assms by (simp add: analyzeMessages_def Let_def parseResponse_def)
next
  fix m
  assume "jsonMatch responseText = Some m" and "JSON_parse w m = None"
  then show "fst (analyzeMessages w batch) = Inl JsonSyntaxError"
    using assms by (simp add: analyzeMessages_def Let_def parseResponse_def)
next
  fix m kvs
  assume m: "jsonMatch responseText = Some m" and p: "JSON_parse w m = Some (JObject kvs)"
    and t: "text_field_ok kvs ''suggestedTitle''" and c: "text_field_ok kvs ''combinedContent''"
  obtain ti co where r: "readAnalysis (JObject kvs) =
           Inr \<lparr>shouldCombine = js_Boolean (map_of (rev kvs) ''shouldCombine''),
                isInformational = js_Boolean (map_of (rev kvs) ''isInformational''),
                suggestedTitle = ti, combinedContent = co\<rparr>"
    using readAnalysis_object[OF t c] by blast
  have "fst (analyzeMessages w batch) = readAnalysis (JObject kvs)"
    using assms m p by (simp add: analyzeMessages_def Let_def parseResponse_def)
  then show "\<exists>a. fst (analyzeMessages w batch) = Inr a \<and>
           shouldCombine a = js_Boolean (map_of (rev kvs) ''shouldCombine'') \<and>
           isInformational a = js_Boolean (map_of (rev kvs) ''isInformational'') \<and>
           (''shouldCombine'' \<notin> fst ` set kvs \<longrightarrow> \<not> shouldCombine a) \<and>
           (''isInformational'' \<notin> fst ` set kvs \<longrightarrow> \<not> isInformational a)"
    using r by (simp add: map_of_rev_absent)
next
  fix m kvs
  assume m: "jsonMatch responseText = Some m" and p: "JSON_parse w m = Some (JObject kvs)"
    and n: "\<not> (text_field_ok kvs ''suggestedTitle'' \<and> text_field_ok kvs ''combinedContent'')"
  have "fst (analyzeMessages w batch) = readAnalysis (JObject kvs)"
    using assms m p by (simp add: analyzeMessages_def Let_def parseResponse_def)
  then show "fst (analyzeMessages w batch) = Inl TypeError"
    using readAnalysis_type_error[OF n] by simp
qed

lemma jsonMatch_numeric_title:
  \<open>jsonMatch ''{"isInformational": true, "suggestedTitle": 5}'' =
     Some ''{"isInformational": true, "suggestedTitle": 5}''\<close>
  by (simp add: jsonMatch_def)

theorem analyzeMessages_format_errors_witness:
  \<open>generateContent picky_world (buildPrompt picky_world [queued_row 1 1 1700000000000 ''one'']) =
     Some ''I cannot help with that.'' \<and>
   jsonMatch ''I cannot help with that.'' = None \<and>
   fst (analyzeMessages picky_world [queued_row 1 1 1700000000000 ''one'']) = Inl AiResponseNotJson \<and>
   generateContent example_world (buildPrompt example_world [queued_row 1 1 1700000000000 ''one'']) =
     Some ''Here you go: {"isInformational": true}'' \<and>
   text_field_ok [(''isInformational'', JBool True)] ''suggestedTitle'' \<and>
   text_field_ok [(''isInformational'', JBool True)] ''combinedContent'' \<and>
   ''shouldCombine'' \<notin> fst ` set [(''isInformational'', JBool True)] \<and>
   (\<exists>a. fst (analyzeMessages example_world [queued_row 1 1 1700000000000 ''one'']) = Inr a \<and>
        \<not> shouldCombine a \<and> isInformational a) \<and>
   generateContent numeric_title_world
       (buildPrompt numeric_title_world [queued_row 1 1 1700000000000 ''one'']) =
     Some ''{"isInformational": true, "suggestedTitle": 5}'' \<and>
   JSON_parse numeric_title_world ''{"isInformational": true, "suggestedTitle": 5}'' =
     Some (JObject [(''isInformational'', JBool True), (''suggestedTitle'', JNumber 5)]) \<and>
   \<not> text_field_ok [(''isInformational'', JBool True), (''suggestedTitle'', JNumber 5)]
       ''suggestedTitle'' \<and>
   fst (analyzeMessages numeric_title_world [queued_row 1 1 1700000000000 ''one'']) = Inl TypeError\<close>
proof -
  have g1: \<open>generateContent picky_world (buildPrompt picky_world [queued_row 1 1 1700000000000 ''one'']) =
     Some ''I cannot help with that.''\<close>
    by (simp add: picky_gen picky_prompt)
  have g2: \<open>generateContent example_world (buildPrompt example_world [queued_row 1 1 1700000000000 ''one'']) =
     Some ''Here you go: {"isInformational": true}''\<close>
    by (simp add: example_world_def)
  have g3: \<open>generateContent numeric_title_world
       (buildPrompt numeric_title_world [queued_row 1 1 1700000000000 ''one'']) =
     Some ''{"isInformational": true, "suggestedTitle": 5}''\<close>
    by (simp add: numeric_title_world_def)
  have p: \<open>JSON_parse example_world ''{"isInformational": true}'' =
     Some (JObject [(''isInformational'', JBool True)])\<close>
    by (simp add: example_world_def example_JSON_parse_def)
  have p3: \<open>JSON_parse numeric_title_world ''{"isInformational": true, "suggestedTitle": 5}'' =
     Some (JObject [(''isInformational'', JBool True), (''suggestedTitle'', JNumber 5)])\<close>
    by (simp add: numeric_title_world_def)
  have t: "text_field_ok [(''isInformational'', JBool True)] ''suggestedTitle''"
     "text_field_ok [(''isInformational'', JBool True)] ''combinedContent''"
    by (simp_all add: text_field_ok_def)
  have t3: "\<not> text_field_ok [(''isInformational'', JBool True), (''suggestedTitle'', JNumber 5)]
       ''suggestedTitle''"
    by (simp add: text_field_ok_def)
  show ?thesis
    using analyzeMessages_format_errors [OF g1] analyzeMessages_format_errors [OF g2]
      analyzeMessages_format_errors [OF g3]
      g1 g2 g3 p p3 t t3 jsonMatch_refusal jsonMatch_here_you_go jsonMatch_numeric_title
    by simp blast
qed

text \<open>
  C5 fails as stated: the object in the model's answer has no \<open>shouldCombine\<close>, and
  \<open>analyzeMessages\<close> returns a result, with \<open>shouldCombine\<close> false.
\<close>

theorem analyzeMessages_missing_field_returns:
  \<open>generateContent example_world (buildPrompt example_world [queued_row 1 1 1700000000000 ''one'']) =
     Some ''Here you go: {"isInformational": true}'' \<and>
   jsonMatch ''Here you go: {"isInformational": true}'' = Some ''{"isInformational": true}'' \<and>
   JSON_parse example_world ''{"isInformational": true}'' =
     Some (JObject [(''isInformational'', JBool True)]) \<and>
   get_prop (JObject [(''isInformational'', JBool True)]) ''shouldCombine'' = None \<and>
   fst (analyzeMessages example_world [queued_row 1 1 1700000000000 ''one'']) =
     Inr \<lparr>shouldCombine = False, isInformational = True, suggestedTitle = [], combinedContent = []\<rparr>\<close>
  by (simp add: analyzeMessages_def Let_def example_world_def parseResponse_def
      jsonMatch_here_you_go example_JSON_parse_def readAnalysis_def)

section \<open>Properties of the ingestion handler\<close>

lemma count_key_one:
  "distinct (map queue_key xs) \<Longrightarrow> list_ex (\<lambda>r. queue_key r = k) xs
     \<Longrightarrow> length (filter (\<lambda>r. queue_key r = k) xs) = 1"
proof (induction xs)
  case Nil
  then show ?case by simp
next
  case (Cons x xs)
  show ?case
  proof (cases "queue_key x = k")
    case True
    then have "filter (\<lambda>r. queue_key r = k) xs = []"
      using Cons.prems(1) by (force simp add: filter_empty_conv image_iff)
    then show ?thesis using True by simp
  next
    case False
    then show ?thesis using Cons by simp
  qed
qed

lemma insert_rows:
  "pending_messages (insert_pending_message d s m t u n ts) =
     (if list_ex (\<lambda>r. queue_key r = (s, m)) (pending_messages d) then pending_messages d
      else pending_messages d @
        [\<lparr>pm_id = pending_messages_seq d + 1, pm_source_id = s, pm_message_id = m, pm_text = t,
          pm_media_urls = Some u, pm_sender = Some n, pm_timestamp = ts, pm_is_processed = False\<rparr>])"
  by (simp add: insert_pending_message_def Let_def queue_key_def)

lemma insert_distinct:
  "distinct (map queue_key (pending_messages d)) \<Longrightarrow>
   distinct (map queue_key (pending_messages (insert_pending_message d s m t u n ts)))"
  by (auto simp add: insert_rows list_ex_iff queue_key_def)

lemma insert_has_key:
  "list_ex (\<lambda>r. queue_key r = (s, m)) (pending_messages (insert_pending_message d s m t u n ts))"
  by (simp add: insert_rows queue_key_def)

lemma insert_count:
  "distinct (map queue_key (pending_messages d)) \<Longrightarrow>
   length (filter (\<lambda>r. queue_key r = (s, m)) (pending_messages (insert_pending_message d s m t u n ts))) = 1"
  using count_key_one[OF insert_distinct insert_has_key] by simp

lemma store_rows_second:
  assumes "list_ex (\<lambda>r. queue_key r = (ms_id source, m_message_id m)) (pending_messages d)"
  shows "pending_messages (storePendingMessage w d source m) = pending_messages d"
  using assms by (simp add: storePendingMessage_def Let_def insert_rows)

text \<open>
  C7. On a queue whose rows have distinct keys (the table's unique constraint), storing a
  message that has text or media and then storing a message with the same message id for
  the same source again (whatever its content) leaves exactly one row with that key: the
  second insert changes no row, and the keys stay distinct.
\<close>

theorem storePendingMessage_twice_one_row:
  assumes "distinct (map queue_key (pending_messages d))"
    and "m_message_id m2 = m_message_id m1"
    and "extractMessageText m1 \<noteq> [] \<or> extractMediaUrls w1 m1 \<noteq> []"
  shows "pending_messages (storePendingMessage w2 (storePendingMessage w1 d source m1) source m2) =
           pending_messages (storePendingMessage w1 d source m1) \<and>
         length (filter (\<lambda>r. queue_key r = (ms_id source, m_message_id m1))
                   (pending_messages (storePendingMessage w2 (storePendingMessage w1 d source m1) source m2))) = 1 \<and>
         distinct (map queue_key
            (pending_messages (storePendingMessage w2 (storePendingMessage w1 d source m1) source m2)))"
proof -
  let ?d1 = "storePendingMessage w1 d source m1"
  obtain t u n ts where d1: "?d1 = insert_pending_message d (ms_id source) (m_message_id m1) t u n ts"
    using assms(3) by (auto simp add: storePendingMessage_def Let_def)
  have k: "list_ex (\<lambda>r. queue_key r = (ms_id source, m_message_id m2)) (pending_messages ?d1)"
    unfolding d1 assms(2) by (rule insert_has_key)
  have same: "pending_messages (storePendingMessage w2 ?d1 source m2) = pending_messages ?d1"
    by (rule store_rows_second[OF k])
  have one: "length (filter (\<lambda>r. queue_key r = (ms_id source, m_message_id m1)) (pending_messages ?d1)) = 1"
    unfolding d1 by (rule insert_count[OF assms(1)])
  have dist: "distinct (map queue_key (pending_messages ?d1))"
    unfolding d1 by (rule insert_distinct[OF assms(1)])
  show ?thesis using same one dist by simp
qed

theorem storePendingMessage_twice_one_row_witness:
  "distinct (map queue_key (pending_messages example_queue_db)) \<and>
   extractMessageText example_message = ''hello'' \<and>
   pending_messages
     (storePendingMessage example_world
        (storePendingMessage example_world example_queue_db example_source example_message)
        example_source (example_message\<lparr>m_text := Some ''hello again''\<rparr>)) =
   [queued_row 1 1 1700000000000 ''one'',
    \<lparr>pm_id = 2, pm_source_id = 1, pm_message_id = 55, pm_text = Some ''hello'',
     pm_media_urls = Some [], pm_sender = Some ''News'', pm_timestamp = 1700000000000,
     pm_is_processed = False\<rparr>]"
proof -
  have d: "distinct (map queue_key (pending_messages example_queue_db))"
    by (simp add: example_queue_db_def)
  have t: "extractMessageText example_message = ''hello''"
    by (simp add: extractMessageText_def example_message_def truthy_def or_empty_def)
  have m: "m_message_id (example_message\<lparr>m_text := Some ''hello again''\<rparr>) = m_message_id example_message"
    by simp
  have n: "extractMessageText example_message \<noteq> [] \<or> extractMediaUrls example_world example_message \<noteq> []"
    using t by simp
  have one: "pending_messages (storePendingMessage example_world example_queue_db example_source example_message) =
   [queued_row 1 1 1700000000000 ''one'',
    \<lparr>pm_id = 2, pm_source_id = 1, pm_message_id = 55, pm_text = Some ''hello'',
     pm_media_urls = Some [], pm_sender = Some ''News'', pm_timestamp = 1700000000000,
     pm_is_processed = False\<rparr>]"
    by (simp add: storePendingMessage_def Let_def t insert_pending_message_def example_queue_db_def
        queued_row_def example_source_def)
       (simp add: example_message_def extractMediaUrls_def collectFile_def truthy_def
        getSenderName_def or_empty_def)
  show ?thesis
    using storePendingMessage_twice_one_row [OF d m n, of example_world example_source] d t one by simp
qed

section \<open>Properties of the command and response layer\<close>

text \<open>
  C6, as the code has it. For a user who is not authorized and not the owner, every handler
  that tests \<open>isAuthorized\<close> leaves the database and \<open>userStates\<close> unchanged: the four
  settings callbacks answer "Unauthorized"; \<open>/unsubscribe\<close>, a forwarded message and the six
  menu texts return without any reply. \<open>/authorize\<close> and \<open>/revoke\<close> reply that only the
  owner may use them, and change nothing. \<open>/start\<close> registers the user first
  (\<open>upsertUser\<close>) and then replies that the user is not authorized.
\<close>

theorem unauthorized_guarded_actions:
  assumes "\<not> isAuthorized (db s) userId" and "userId \<noteq> OWNER_USER_ID w"
  shows "action_toggle_auto_publish w s userId = (s, [AnswerCb_unauthorized]) \<and>
         action_set_combine_time s userId = (s, [AnswerCb_unauthorized]) \<and>
         action_set_notion_db s userId = (s, [AnswerCb_unauthorized]) \<and>
         action_set_github_repo s userId = (s, [AnswerCb_unauthorized]) \<and>
         command_unsubscribe w s userId txt = (s, []) \<and>
         on_forward_origin w s userId forwardOrigin = (s, []) \<and>
         hears_status s userId = (s, []) \<and>
         hears_settings s userId = (s, []) \<and>
         hears_subscribe s userId = (s, []) \<and>
         hears_list_sources s userId = (s, []) \<and>
         hears_pending_posts s userId = (s, []) \<and>
         hears_manage_users s userId = (s, []) \<and>
         command_authorize w s (Some userId) txt_authorize = (s, [Reply_only_owner_authorize]) \<and>
         command_revoke w s (Some userId) txt_revoke = (s, [Reply_only_owner_revoke]) \<and>
         bot_start w s userId username =
           (s\<lparr>db := upsertUser w (db s) userId username\<rparr>, [Reply_not_authorized])"
proof -
  have ne: "\<not> list_ex P xs \<Longrightarrow> filter P xs = []" for P :: "UserRow \<Rightarrow> bool" and xs
    by (auto simp add: filter_empty_conv list_ex_iff)
  have "\<not> isAuthorized (upsertUser w (db s) userId username) userId"
    using assms by (auto simp add: isAuthorized_def upsertUser_def Let_def ne split: list.splits)
  then have st: "bot_start w s userId username =
           (s\<lparr>db := upsertUser w (db s) userId username\<rparr>, [Reply_not_authorized])"
    by (simp add: bot_start_def Let_def)
  show ?thesis using assms st
    by (simp add: action_toggle_auto_publish_def action_set_combine_time_def
        action_set_notion_db_def action_set_github_repo_def command_unsubscribe_def
        on_forward_origin_def hears_status_def hears_settings_def hears_subscribe_def
        hears_list_sources_def hears_pending_posts_def hears_manage_users_def
        command_authorize_def command_revoke_def)
qed

theorem unauthorized_guarded_actions_witness:
  "isAuthorized (db example_bot) 7 = False \<and> OWNER_USER_ID example_world = 100 \<and>
   action_toggle_auto_publish example_world example_bot 7 = (example_bot, [AnswerCb_unauthorized]) \<and>
   command_unsubscribe example_world example_bot 7 ''/unsubscribe 1'' = (example_bot, []) \<and>
   on_forward_origin example_world example_bot 7 (Some (Origin_channel (- 1001) (Some ''News''))) =
     (example_bot, []) \<and>
   command_authorize example_world example_bot (Some 7) ''/authorize 7'' =
     (example_bot, [Reply_only_owner_authorize])"
proof -
  have a: "\<not> isAuthorized (db example_bot) 7"
    by (simp add: isAuthorized_def example_bot_def example_db_def)
  have o: "7 \<noteq> OWNER_USER_ID example_world" by (simp add: example_world_def)
  show ?thesis
    using unauthorized_guarded_actions [OF a o, of "''/unsubscribe 1''"
        "Some (Origin_channel (- 1001) (Some ''News''))" "''/authorize 7''"] a
    by (simp add: example_world_def)
qed

text \<open>
  C6 fails as stated: \<open>/start\<close> from user 7, who is not authorized, inserts a row into
  \<open>users\<close> and a row into \<open>user_settings\<close> before it rejects.
\<close>

theorem bot_start_registers_unauthorized_user:
  "bot_start example_world example_bot 7 (Some ''mallory'') =
     (example_bot\<lparr>db := example_db
        \<lparr>users := users example_db @
            [\<lparr>u_user_id = 7, u_username = Some ''mallory'', u_is_authorized = False,
              u_created_at = 1700000000000\<rparr>],
         user_settings := user_settings example_db @
            [\<lparr>us_user_id = 7, auto_publish = False, combine_threshold_minutes = 5,
              notion_database_id = None, github_repo = None, updated_at = Some 1700000000000\<rparr>]\<rparr>\<rparr>,
      [Reply_not_authorized]) \<and>
   isAuthorized (db example_bot) 7 = False"
  by (simp add: bot_start_def upsertUser_def isAuthorized_def Let_def example_bot_def example_db_def
      example_world_def example_settings_def)

lemma trim_last:
  assumes "trim s \<noteq> []"
  shows "\<not> is_space (last (trim s))"
proof -
  define xs where "xs = dropWhile is_space (rev (dropWhile is_space s))"
  have t: "trim s = rev xs" by (simp only: trim_def xs_def)
  have x: "xs \<noteq> []" using assms unfolding t by simp
  have "\<not> is_space (hd xs)" using x unfolding xs_def by (rule hd_dropWhile)
  moreover have "last (rev xs) = hd xs" by (simp only: last_rev)
  ultimately show ?thesis unfolding t by simp
qed

lemma varchar_trim:
  "varchar n (trim s) = (if length (trim s) \<le> n then Some (trim s) else None)"
proof (cases "length (trim s) \<le> n")
  case True
  then show ?thesis by (simp only: varchar_def if_True)
next
  case False
  define t where "t = trim s"
  have l: "n < length t" using False by (simp add: t_def)
  have ne: "trim s \<noteq> []" using l unfolding t_def by auto
  have dn: "drop n t \<noteq> []" using l by simp
  have la: "last (drop n t) = last t" using l by simp
  have mem: "last (drop n t) \<in> set (drop n t)" using dn by (rule last_in_set)
  have ns: "\<not> is_space (last t)" unfolding t_def using ne by (rule trim_last)
  have sp: "is_space CHR '' ''" by (simp add: is_space_def)
  have "\<not> list_all (\<lambda>c. c = CHR '' '') (drop n t)"
  proof
    assume "list_all (\<lambda>c. c = CHR '' '') (drop n t)"
    then have "\<forall>c \<in> set (drop n t). c = CHR '' ''" by (simp only: list_all_iff)
    then have "last (drop n t) = CHR '' ''" using mem by blast
    then show False using ns sp la by simp
  qed
  then have "varchar n t = None" using l by (simp add: varchar_def)
  then show ?thesis using l by (simp add: t_def)
qed

lemma int4_positive:
  assumes "Number_isInteger m" and "\<not> le_zero m"
  shows "int4 (integer_of m) = (integer_of m \<le> 2147483647)"
proof (cases m)
  case (Finite q)
  then have e: "q = of_int \<lfloor>q\<rfloor>" and p: "0 < q" using assms by auto
  obtain n :: int where n: "q = of_int n" using e by blast
  have "0 < n" using p unfolding n by simp
  then show ?thesis using Finite n by (simp add: int4_def)
qed (use assms in simp_all)

text \<open>
  C10, as the code has it. A text in the private chat from a user whose state is set.
  When the state is \<open>set_github_repo\<close> and the trimmed text is not of the form owner/repo,
  or the state is \<open>set_combine_time\<close> and the text is not a positive integer, the database
  and \<open>userStates\<close> are unchanged, so the next text meets the same state. Otherwise the
  handler sends the \<open>UPDATE\<close>. When the value does not fit its column (a text setting of
  more than 255 characters, minutes above 2147483647, a post id outside the range of
  \<open>INT\<close>), the
  \<open>UPDATE\<close> fails: the handler ends with that error, nothing is stored, no reply is sent
  and the state is retained. When the value fits, the database changes in the one setting
  of that user's row the state names (with its \<open>updated_at\<close>), or in the content of the
  post being edited; the state of that user is then cleared if the confirming reply is
  delivered, and retained if it is not.
\<close>

theorem pending_input_state_consumed:
  assumes "m_from message = Some u" and "userStates s (tu_id u) = Some st"
  shows "let txt = trim (or_empty (m_text message));
             minutes = Number_of w txt;
             result = on_text w s True chat message;
             s' = fst (snd result)
         in if (st = set_github_repo \<and> \<not> repo_format txt) \<or>
               (st = set_combine_time \<and> (\<not> Number_isInteger minutes \<or> le_zero minutes))
            then s' = s
            else if \<not> (case st of
                         set_notion_db \<Rightarrow> length txt \<le> 255
                       | set_github_repo \<Rightarrow> length txt \<le> 255
                       | set_combine_time \<Rightarrow> integer_of minutes \<le> 2147483647
                       | edit_post postId \<Rightarrow> - 2147483648 \<le> postId \<and> postId \<le> 2147483647)
            then result = (Some DatabaseError, s, [])
            else db s' =
                   (case st of
                      set_notion_db \<Rightarrow>
                        (db s)\<lparr>user_settings :=
                          map (\<lambda>r. if us_user_id r = tu_id u
                                   then r\<lparr>notion_database_id := Some txt, updated_at := Some (Date_now w)\<rparr>
                                   else r) (user_settings (db s))\<rparr>
                    | set_github_repo \<Rightarrow>
                        (db s)\<lparr>user_settings :=
                          map (\<lambda>r. if us_user_id r = tu_id u
                                   then r\<lparr>github_repo := Some txt, updated_at := Some (Date_now w)\<rparr>
                                   else r) (user_settings (db s))\<rparr>
                    | set_combine_time \<Rightarrow>
                        (db s)\<lparr>user_settings :=
                          map (\<lambda>r. if us_user_id r = tu_id u
                                   then r\<lparr>combine_threshold_minutes := integer_of minutes,
                                          updated_at := Some (Date_now w)\<rparr>
                                   else r) (user_settings (db s))\<rparr>
                    | edit_post postId \<Rightarrow>
                        (db s)\<lparr>blog_posts :=
                          map (\<lambda>p. if bp_id p = postId \<and> bp_user_id p = tu_id u
                                   then p\<lparr>bp_content := txt\<rparr> else p) (blog_posts (db s))\<rparr>) \<and>
                 (if ctx_reply w chat
                       (case st of
                          set_notion_db \<Rightarrow> Reply_notion_saved
                        | set_github_repo \<Rightarrow> Reply_repo_saved
                        | set_combine_time \<Rightarrow> Reply_combine_updated (integer_of minutes)
                        | edit_post postId \<Rightarrow> Reply_post_updated)
                  then fst result = None \<and> userStates s' = (userStates s)((tu_id u) := None)
                  else fst result = Some TelegramFailed \<and> userStates s' = userStates s)"
  using assms
  by (cases st)
     (simp_all add: on_text_def Let_def update_settings_def reply_and_delete_def
        reply_and_return_def varchar_trim int4_positive, simp_all add: int4_def)

lemma trim_ex1: "trim '' alice-wiki '' = ''alice-wiki''"
  by (simp add: trim_def is_space_def)

lemma trim_ex2: "trim ''10'' = ''10''"
  by (simp add: trim_def is_space_def)

lemma trim_ex3: "trim ''3000000000'' = ''3000000000''"
  by (simp add: trim_def is_space_def)

lemma private_text_fields:
  "m_from (private_text t) =
     Some \<lparr>tu_id = 100, tu_username = Some ''alice'', tu_first_name = ''Alice'', tu_last_name = None\<rparr>"
  "or_empty (m_text (private_text t)) = t"
  by (simp_all add: private_text_def or_empty_def)

lemma waiting_bot_fields:
  "db (waiting_bot st) = example_db"
  "userStates (waiting_bot st) = [100 \<mapsto> st]"
  "userStates (waiting_bot st)
     (tu_id \<lparr>tu_id = 100, tu_username = Some ''alice'', tu_first_name = ''Alice'', tu_last_name = None\<rparr>) =
   Some st"
  by (simp_all add: waiting_bot_def)

lemma text_world_fields:
  "Date_now example_world = 1700000000000"
  "Date_now silent_world = 1700000000000"
  "Number_of example_world = example_Number"
  "Number_of silent_world = example_Number"
  "ctx_reply example_world chat r = True"
  "ctx_reply silent_world chat r = False"
  by (simp_all add: example_world_def silent_world_def)

theorem pending_input_state_consumed_witness:
  "userStates (waiting_bot set_github_repo) 100 = Some set_github_repo \<and>
   repo_format ''alice-wiki'' = False \<and>
   fst (snd (on_text example_world (waiting_bot set_github_repo) True (Some 100)
              (private_text '' alice-wiki ''))) =
     waiting_bot set_github_repo \<and>
   Number_of example_world ''10'' = Finite 10 \<and>
   fst (snd (on_text example_world (waiting_bot set_combine_time) True (Some 100)
              (private_text ''10''))) =
     \<lparr>db = example_db\<lparr>user_settings :=
            [example_settings\<lparr>combine_threshold_minutes := 10, updated_at := Some 1700000000000\<rparr>]\<rparr>,
      userStates = Map.empty\<rparr> \<and>
   fst (on_text silent_world (waiting_bot set_combine_time) True (Some 100) (private_text ''10'')) =
     Some TelegramFailed \<and>
   fst (snd (on_text silent_world (waiting_bot set_combine_time) True (Some 100)
              (private_text ''10''))) =
     \<lparr>db = example_db\<lparr>user_settings :=
            [example_settings\<lparr>combine_threshold_minutes := 10, updated_at := Some 1700000000000\<rparr>]\<rparr>,
      userStates = [100 \<mapsto> set_combine_time]\<rparr> \<and>
   on_text silent_world (waiting_bot set_combine_time) True (Some 100) (private_text ''3000000000'') =
     (Some DatabaseError, waiting_bot set_combine_time, [])"
proof -
  have r: "repo_format ''alice-wiki'' = False" by (simp add: repo_format_def)
  have n3: "example_Number ''3000000000'' = Finite 3000000000" by (simp add: example_Number_def)
  have 4: "on_text silent_world (waiting_bot set_combine_time) True (Some 100)
             (private_text ''3000000000'') =
           (Some DatabaseError, waiting_bot set_combine_time, [])"
    using pending_input_state_consumed
      [of "private_text ''3000000000''"
          "\<lparr>tu_id = 100, tu_username = Some ''alice'', tu_first_name = ''Alice'', tu_last_name = None\<rparr>"
          "waiting_bot set_combine_time" set_combine_time silent_world "Some 100",
       OF private_text_fields(1) waiting_bot_fields(3)]
    by (simp add: Let_def private_text_fields trim_ex3 n3 text_world_fields)
  have n: "example_Number ''10'' = Finite 10" by (simp add: example_Number_def)
  have us: "user_settings example_db = [example_settings]" "us_user_id example_settings = 100"
    by (simp_all add: example_db_def example_settings_def)
  have eq: "(s' :: bot) = \<lparr>db = db s', userStates = userStates s'\<rparr>" for s' by simp
  have 1: "fst (snd (on_text example_world (waiting_bot set_github_repo) True (Some 100)
              (private_text '' alice-wiki ''))) = waiting_bot set_github_repo"
    using pending_input_state_consumed
      [of "private_text '' alice-wiki ''"
          "\<lparr>tu_id = 100, tu_username = Some ''alice'', tu_first_name = ''Alice'', tu_last_name = None\<rparr>"
          "waiting_bot set_github_repo" set_github_repo example_world "Some 100",
       OF private_text_fields(1) waiting_bot_fields(3)]
    by (simp add: Let_def private_text_fields trim_ex1 r)
  have 2: "db (fst (snd (on_text example_world (waiting_bot set_combine_time) True (Some 100)
              (private_text ''10'')))) =
           example_db\<lparr>user_settings :=
            [example_settings\<lparr>combine_threshold_minutes := 10, updated_at := Some 1700000000000\<rparr>]\<rparr> \<and>
         userStates (fst (snd (on_text example_world (waiting_bot set_combine_time) True (Some 100)
              (private_text ''10'')))) = Map.empty"
    using pending_input_state_consumed
      [of "private_text ''10''"
          "\<lparr>tu_id = 100, tu_username = Some ''alice'', tu_first_name = ''Alice'', tu_last_name = None\<rparr>"
          "waiting_bot set_combine_time" set_combine_time example_world "Some 100",
       OF private_text_fields(1) waiting_bot_fields(3)]
    by (simp add: Let_def private_text_fields trim_ex2 n text_world_fields waiting_bot_fields
        us int4_def)
  have 3: "fst (on_text silent_world (waiting_bot set_combine_time) True (Some 100)
              (private_text ''10'')) = Some TelegramFailed \<and>
         db (fst (snd (on_text silent_world (waiting_bot set_combine_time) True (Some 100)
              (private_text ''10'')))) =
           example_db\<lparr>user_settings :=
            [example_settings\<lparr>combine_threshold_minutes := 10, updated_at := Some 1700000000000\<rparr>]\<rparr> \<and>
         userStates (fst (snd (on_text silent_world (waiting_bot set_combine_time) True (Some 100)
              (private_text ''10'')))) = [100 \<mapsto> set_combine_time]"
    using pending_input_state_consumed
      [of "private_text ''10''"
          "\<lparr>tu_id = 100, tu_username = Some ''alice'', tu_first_name = ''Alice'', tu_last_name = None\<rparr>"
          "waiting_bot set_combine_time" set_combine_time silent_world "Some 100",
       OF private_text_fields(1) waiting_bot_fields(3)]
    by (simp add: Let_def private_text_fields trim_ex2 n text_world_fields waiting_bot_fields
        us int4_def)
  show ?thesis
    using 1 2 3 4 r n
      eq[of "fst (snd (on_text example_world (waiting_bot set_combine_time) True (Some 100)
              (private_text ''10'')))"]
      eq[of "fst (snd (on_text silent_world (waiting_bot set_combine_time) True (Some 100)
              (private_text ''10'')))"]
    by (simp add: waiting_bot_fields text_world_fields)
qed

text \<open>
  C10 fails as stated: the state is \<open>set_combine_time\<close> and the text is 3000000000, a
  positive integer, which passes the validation of the handler. The \<open>UPDATE\<close> fails, since
  the column is an \<open>INT\<close>: the setting is not updated and the state is not cleared.
\<close>

theorem pending_input_minutes_out_of_range:
  "Number_of example_world (trim ''3000000000'') = Finite 3000000000 \<and>
   Number_isInteger (Finite 3000000000) \<and>
   \<not> le_zero (Finite 3000000000) \<and>
   on_text example_world (waiting_bot set_combine_time) True (Some 100) (private_text ''3000000000'') =
     (Some DatabaseError, waiting_bot set_combine_time, []) \<and>
   db (waiting_bot set_combine_time) = example_db \<and>
   userStates (waiting_bot set_combine_time) 100 = Some set_combine_time"
proof -
  have n: "example_Number ''3000000000'' = Finite 3000000000" by (simp add: example_Number_def)
  show ?thesis
    by (simp add: on_text_def Let_def private_text_def or_empty_def waiting_bot_def
        trim_ex3 text_world_fields n int4_def reply_and_return_def reply_and_delete_def)
qed

end
